theory Spec2Isabelle
  imports Complex_Main "HOL-Library.Word"
begin

section \<open>JavaScript strings and values\<close>

text \<open>
  Strings of the string utilities, the API client and the AI service are modelled as
  \<^typ>\<open>string\<close>: every \<^typ>\<open>char\<close> stands for one UTF-16 code unit in the range
  U+0000 .. U+00FF (Basic Latin and Latin-1 Supplement), so \<open>length\<close> is the
  \<^verbatim>\<open>.length\<close> of the source. Code units above U+00FF are outside this type; the
  encryption utilities, whose behaviour depends on them, use 16-bit code units instead
  (see the section on encryption).
\<close>

definition code :: "char \<Rightarrow> nat" where
  "code c = of_char c"

text \<open>\<^verbatim>\<open>String.prototype.toLowerCase\<close> on U+0000 .. U+00FF: A-Z and the
  capital letters U+00C0 .. U+00DE (without the multiplication sign U+00D7) move up by 32.\<close>

definition lowerChar :: "char \<Rightarrow> char" where
  "lowerChar c =
     (if (65 \<le> code c \<and> code c \<le> 90) \<or> (192 \<le> code c \<and> code c \<le> 222 \<and> code c \<noteq> 215)
      then char_of (code c + 32) else c)"

definition toLowerCase :: "string \<Rightarrow> string" where
  "toLowerCase s = map lowerChar s"

text \<open>\<^verbatim>\<open>s.startsWith(k)\<close>, \<^verbatim>\<open>s.includes(k)\<close> and \<^verbatim>\<open>s.endsWith(k)\<close>.\<close>

fun startsWith :: "string \<Rightarrow> string \<Rightarrow> bool" where
  "startsWith s [] = True"
| "startsWith [] (k # ks) = False"
| "startsWith (c # cs) (k # ks) = (c = k \<and> startsWith cs ks)"

fun includesStr :: "string \<Rightarrow> string \<Rightarrow> bool" where
  "includesStr [] k = (k = [])"
| "includesStr (c # cs) k = (startsWith (c # cs) k \<or> includesStr cs k)"

definition endsWith :: "string \<Rightarrow> string \<Rightarrow> bool" where
  "endsWith s k = startsWith (rev s) (rev k)"

text \<open>White space as \<^verbatim>\<open>trim\<close> and \<^verbatim>\<open>parseInt\<close> skip it, within U+0000 .. U+00FF:
  TAB, LF, VT, FF, CR, SPACE and NO-BREAK SPACE.\<close>

definition isWhiteSpace :: "char \<Rightarrow> bool" where
  "isWhiteSpace c = (code c \<in> {9, 10, 11, 12, 13, 32, 160})"

definition trim :: "string \<Rightarrow> string" where
  "trim s = rev (dropWhile isWhiteSpace (rev (dropWhile isWhiteSpace s)))"

text \<open>
  A JavaScript number, as far as \<^verbatim>\<open>parseInt\<close> can return one: \<^verbatim>\<open>NaN\<close>, a double whose
  value is an integer (held by that value; the two zeros are one value, and both print
  as \<^verbatim>\<open>0\<close>), or an infinity. A double has 53 significant bits: for \<open>n \<ge> 0\<close>,
  \<open>nearestDouble n\<close> is the double nearest to the integer \<open>n\<close>, a tie going to the even
  significand, and \<open>None\<close> when \<open>n\<close> lies beyond the largest double.
\<close>

datatype number = NaN | Finite int | PosInfinity | NegInfinity

function bitLength :: "int \<Rightarrow> nat" where
  "bitLength n = (if n \<le> 0 then 0 else Suc (bitLength (n div 2)))"
  by pat_completeness auto
termination
  by (relation "measure nat") auto

definition nearestDouble :: "int \<Rightarrow> int option" where
  "nearestDouble n =
     (if n < 2 ^ 53 then Some n
      else
        (let e = bitLength n - 53;
             q = n div 2 ^ e;
             r = n mod 2 ^ e;
             half = 2 ^ (e - 1);
             q' = (if half < r \<or> (r = half \<and> odd q) then q + 1 else q)
         in if 2 ^ 1024 \<le> q' * 2 ^ e then None else Some (q' * 2 ^ e)))"

text \<open>The decimal digits of an integer \<open>n \<ge> 0\<close>.\<close>

function digitsOf :: "int \<Rightarrow> string" where
  "digitsOf n = (if n < 10 then [char_of (48 + n)] else digitsOf (n div 10) @ [char_of (48 + n mod 10)])"
  by pat_completeness auto
termination
  by (relation "measure nat") auto

text \<open>
  A number in a template literal (\<^verbatim>\<open>Number::toString\<close>). Of the decimal numerals that
  round to the double \<open>v\<close>, the one with the fewest significant digits is printed, the
  nearest to \<open>v\<close> when there are several, the one with the even last digit when two are
  equally near: \<open>shortest v p\<close> looks for it among the multiples of \<open>10 ^ p\<close>, from the
  largest \<open>p\<close> down. Below \<open>2 ^ 53\<close> that numeral is the integer itself. It is printed
  in full when it has at most 21 digits, and with an exponent otherwise.
\<close>

fun shortest :: "int \<Rightarrow> nat \<Rightarrow> int" where
  "shortest v 0 = v"
| "shortest v (Suc p) =
     (let below = v div 10 ^ Suc p * 10 ^ Suc p;
          above = below + 10 ^ Suc p;
          b = (nearestDouble below = Some v);
          a = (nearestDouble above = Some v)
      in if b \<and> a then
           (if v - below < above - v then below
            else if above - v < v - below then above
            else if even (below div 10 ^ Suc p) then below else above)
         else if b then below
         else if a then above
         else shortest v p)"

definition doubleToString :: "int \<Rightarrow> string" where
  "doubleToString v =
     (if v < 2 ^ 53 then digitsOf v
      else
        (let ds = digitsOf (shortest v (length (digitsOf v)));
             s = rev (dropWhile (\<lambda>c. c = CHR ''0'') (rev ds))
         in if length ds \<le> 21 then ds
            else if length s = 1 then s @ ''e+'' @ digitsOf (int (length ds) - 1)
            else take 1 s @ ''.'' @ drop 1 s @ ''e+'' @ digitsOf (int (length ds) - 1)))"

definition numberToString :: "number \<Rightarrow> string" where
  "numberToString x =
     (case x of
        NaN \<Rightarrow> ''NaN''
      | PosInfinity \<Rightarrow> ''Infinity''
      | NegInfinity \<Rightarrow> ''-Infinity''
      | Finite i \<Rightarrow> (if i < 0 then ''-'' @ doubleToString (- i) else doubleToString i))"

text \<open>\<^verbatim>\<open>parseInt(s)\<close> without a radix: leading white space and one sign are skipped, a
  prefix \<^verbatim>\<open>0x\<close> or \<^verbatim>\<open>0X\<close> selects radix 16, the longest run of digits of the radix is
  read, and no digit at all gives \<^verbatim>\<open>NaN\<close>. The result is the double nearest to the
  integer that the digits denote; every digit counts, as in the engine that Node runs
  (the language lets an engine read the decimal digits after the 20th as zeros).\<close>

definition digitValue :: "char \<Rightarrow> nat option" where
  "digitValue c =
     (if 48 \<le> code c \<and> code c \<le> 57 then Some (code c - 48)
      else if 97 \<le> code c \<and> code c \<le> 122 then Some (code c - 87)
      else if 65 \<le> code c \<and> code c \<le> 90 then Some (code c - 55)
      else None)"

definition isDigitOf :: "nat \<Rightarrow> char \<Rightarrow> bool" where
  "isDigitOf radix c = (case digitValue c of None \<Rightarrow> False | Some d \<Rightarrow> d < radix)"

definition digitsValue :: "nat \<Rightarrow> string \<Rightarrow> int" where
  "digitsValue radix ds =
     foldl (\<lambda>acc c. acc * int radix + (case digitValue c of None \<Rightarrow> 0 | Some d \<Rightarrow> int d)) 0 ds"

definition parseInt :: "string \<Rightarrow> number" where
  "parseInt s =
     (let s1 = dropWhile isWhiteSpace s;
          negative = startsWith s1 ''-'';
          s2 = (if startsWith s1 ''-'' \<or> startsWith s1 ''+'' then drop 1 s1 else s1);
          hex = (startsWith s2 ''0x'' \<or> startsWith s2 ''0X'');
          radix = (if hex then 16 else 10);
          s3 = (if hex then drop 2 s2 else s2);
          z = takeWhile (isDigitOf radix) s3
      in if z = [] then NaN
         else
           (case nearestDouble (digitsValue radix z) of
              None \<Rightarrow> (if negative then NegInfinity else PosInfinity)
            | Some v \<Rightarrow> Finite (if negative then - v else v)))"

section \<open>Errors\<close>

text \<open>The values the code throws: the built-in \<^verbatim>\<open>Error\<close>, \<^verbatim>\<open>TypeError\<close> and
  \<^verbatim>\<open>SyntaxError\<close> with their messages, the custom classes of \<^verbatim>\<open>types.ts\<close> (a
  \<^verbatim>\<open>RateLimitError\<close> with its message and its \<^verbatim>\<open>retryAfter\<close>, in seconds), the error of
  the database client with its error code, and the value \<^verbatim>\<open>undefined\<close>, which
  \<^verbatim>\<open>throw lastError!\<close> throws when no attempt was made.\<close>

record graphAPIError =
  ge_message :: string
  ge_type :: string
  ge_code :: int
  error_subcode :: "int option"
  fbtrace_id :: string

datatype error =
    Error string
  | TypeError string
  | SyntaxError string
  | RateLimitError string number
  | InstagramAPIError string "graphAPIError option"
  | PrismaClientKnownRequestError string
  | Undefined

section \<open>Retry with backoff (utils)\<close>

datatype level = DEBUG | INFO | WARN | ERROR

record postRequest =
  url :: string
  recipient :: string
  msg_text :: string
  access_token :: string

text \<open>
  \<^verbatim>\<open>response.data\<close>, the parsed body of a response, as far as the client reads it. The
  body can be \<^verbatim>\<open>null\<close> or \<^verbatim>\<open>undefined\<close>, and reading a member of these throws a
  \<^verbatim>\<open>TypeError\<close>; of every other body the model keeps the one member that the client
  reads, which is undefined (\<open>None\<close>) when the body is a string, a number or an object
  without that member. The member is \<^verbatim>\<open>message_id\<close> for a reply and \<^verbatim>\<open>error\<close> for an error
  response.
\<close>

datatype 'a responseData = NullData | UndefinedData | Data 'a

record postReply =
  reply_data :: "string option responseData"

record axiosResponse =
  status :: int
  data :: "graphAPIError option responseData"
  headers :: "string \<rightharpoonup> string"

record axiosError =
  response :: "axiosResponse option"
  ax_message :: string

text \<open>
  The world the client runs in. \<open>platform n rq\<close> is what the remote service answers to
  the \<open>n\<close>-th POST it receives (counted from 0) when that POST is \<open>rq\<close>. \<open>timeline\<close> holds
  what the client has done so far, in the order in which it did it: every POST it made
  and every \<^verbatim>\<open>sleep(ms)\<close> it awaited. \<open>console\<close> holds the lines the logger wrote (level
  and message, the meta object left out), and \<open>debugLevel\<close> is
  \<^verbatim>\<open>process.env.LOG_LEVEL === 'debug'\<close>.
\<close>

datatype event = Post postRequest | Sleep int

record world =
  platform :: "nat \<Rightarrow> postRequest \<Rightarrow> axiosError + postReply"
  timeline :: "event list"
  console :: "(level \<times> string) list"
  debugLevel :: bool

text \<open>The POSTs of a timeline and its sleeps, each in order.\<close>

fun posted :: "event list \<Rightarrow> postRequest list" where
  "posted [] = []"
| "posted (Post rq # es) = rq # posted es"
| "posted (Sleep ms # es) = posted es"

fun sleeps :: "event list \<Rightarrow> int list" where
  "sleeps [] = []"
| "sleeps (Post rq # es) = sleeps es"
| "sleeps (Sleep ms # es) = ms # sleeps es"

definition requests :: "world \<Rightarrow> postRequest list" where
  "requests w = posted (timeline w)"

definition slept :: "world \<Rightarrow> int list" where
  "slept w = sleeps (timeline w)"

definition sleep :: "int \<Rightarrow> world \<Rightarrow> world" where
  "sleep ms w = w\<lparr>timeline := timeline w @ [Sleep ms]\<rparr>"

definition logger :: "level \<Rightarrow> string \<Rightarrow> world \<Rightarrow> world" where
  "logger l msg w =
     (if l = DEBUG \<and> \<not> debugLevel w then w else w\<lparr>console := console w @ [(l, msg)]\<rparr>)"

text \<open>
  \<^verbatim>\<open>retryWithBackoff(fn, maxRetries, baseDelay)\<close>: the \<^verbatim>\<open>for\<close> loop over \<open>i\<close>, with
  \<^verbatim>\<open>lastError\<close> as an option (\<open>None\<close> before the first failure). The action \<open>fn\<close> runs
  in the world and either returns (\<open>Inr\<close>) or throws (\<open>Inl\<close>).
\<close>

function retryLoop ::
  "(world \<Rightarrow> (error + 'a) \<times> world) \<Rightarrow> int \<Rightarrow> int \<Rightarrow> nat \<Rightarrow> error option \<Rightarrow> world
     \<Rightarrow> (error + 'a) \<times> world" where
  "retryLoop fn maxRetries baseDelay i lastError w =
     (if int i < maxRetries then
        (case fn w of
           (Inr v, w') \<Rightarrow> (Inr v, w')
         | (Inl e, w') \<Rightarrow>
             retryLoop fn maxRetries baseDelay (i + 1) (Some e)
               (if int i < maxRetries - 1 then sleep (baseDelay * 2 ^ i) w' else w'))
      else (Inl (case lastError of None \<Rightarrow> Undefined | Some e \<Rightarrow> e), w))"
  by pat_completeness auto
termination
  by (relation "measure (\<lambda>(fn, maxRetries, baseDelay, i, lastError, w). nat (maxRetries - int i))") auto

definition retryWithBackoff ::
  "(world \<Rightarrow> (error + 'a) \<times> world) \<Rightarrow> int \<Rightarrow> int \<Rightarrow> world \<Rightarrow> (error + 'a) \<times> world" where
  "retryWithBackoff fn maxRetries baseDelay w = retryLoop fn maxRetries baseDelay 0 None w"

section \<open>Instagram API client\<close>

record client =
  accessToken :: string

text \<open>\<^verbatim>\<open>handleAPIError\<close>: the response interceptor turns every axios error into one of
  the custom errors and throws it. With a response, \<^verbatim>\<open>error.response.data.error\<close> is
  read first, which throws a \<^verbatim>\<open>TypeError\<close> of its own when the body is \<^verbatim>\<open>null\<close> or
  \<^verbatim>\<open>undefined\<close>. \<^verbatim>\<open>a || b\<close> on strings takes \<open>b\<close> when \<open>a\<close> is undefined or empty.\<close>

definition orElse :: "string option \<Rightarrow> string \<Rightarrow> string" where
  "orElse a b = (case a of None \<Rightarrow> b | Some s \<Rightarrow> (if s = [] then b else s))"

definition handleAPIError :: "axiosError \<Rightarrow> error" where
  "handleAPIError err =
     (case response err of
        Some r \<Rightarrow>
          (case data r of
             NullData \<Rightarrow> TypeError ''Cannot read properties of null (reading 'error')''
           | UndefinedData \<Rightarrow> TypeError ''Cannot read properties of undefined (reading 'error')''
           | Data apiError \<Rightarrow>
               (if status r = 429 \<or> map_option ge_code apiError = Some 4 then
                  (let retryAfter = parseInt (orElse (headers r ''retry-after'') ''60'')
                   in RateLimitError
                        (''Instagram API rate limit exceeded. Retry after '' @ numberToString retryAfter @ ''s'')
                        retryAfter)
                else InstagramAPIError
                       (orElse (map_option ge_message apiError) ''Instagram API error'')
                       apiError))
      | None \<Rightarrow>
          InstagramAPIError (orElse (Some (ax_message err)) ''Failed to connect to Instagram API'') None)"

text \<open>\<^verbatim>\<open>this.client.post\<close> with both interceptors: the request interceptor logs at
  debug level, the request reaches the platform, and a failure goes through
  \<^verbatim>\<open>handleAPIError\<close>.\<close>

definition post :: "postRequest \<Rightarrow> world \<Rightarrow> (error + postReply) \<times> world" where
  "post rq w =
     (let w1 = logger DEBUG ''Instagram API Request'' w;
          w2 = w1\<lparr>timeline := timeline w1 @ [Post rq]\<rparr>
      in case platform w (length (requests w)) rq of
           Inl e \<Rightarrow> (Inl (handleAPIError e), w2)
         | Inr r \<Rightarrow> (Inr r, w2))"

text \<open>\<^verbatim>\<open>sendMessage\<close>: the retried POST, then \<^verbatim>\<open>response.data.message_id\<close> is read inside
  the \<^verbatim>\<open>try\<close>, so that a reply without a body ends in the \<^verbatim>\<open>catch\<close> as a failed POST
  does; the \<^verbatim>\<open>catch\<close> logs and throws the error again.\<close>

record sendMessageResponse =
  message_id :: "string option"
  recipient_id :: string

definition messageRequest :: "client \<Rightarrow> string \<Rightarrow> string \<Rightarrow> string \<Rightarrow> postRequest" where
  "messageRequest c recipientId message pageId =
     \<lparr>url = ''/'' @ pageId @ ''/messages'', recipient = recipientId, msg_text = message,
      access_token = accessToken c\<rparr>"

definition sendMessage ::
  "client \<Rightarrow> string \<Rightarrow> string \<Rightarrow> string \<Rightarrow> world \<Rightarrow> (error + sendMessageResponse) \<times> world" where
  "sendMessage c recipientId message pageId w =
     (case retryWithBackoff (post (messageRequest c recipientId message pageId)) 3 1000 w of
        (Inr r, w') \<Rightarrow>
          (case reply_data r of
             Data mid \<Rightarrow>
               (Inr \<lparr>message_id = mid, recipient_id = recipientId\<rparr>,
                logger INFO ''Message sent successfully'' w')
           | NullData \<Rightarrow>
               (Inl (TypeError ''Cannot read properties of null (reading 'message_id')''),
                logger ERROR ''Failed to send message'' w')
           | UndefinedData \<Rightarrow>
               (Inl (TypeError ''Cannot read properties of undefined (reading 'message_id')''),
                logger ERROR ''Failed to send message'' w'))
      | (Inl e, w') \<Rightarrow> (Inl e, logger ERROR ''Failed to send message'' w'))"

section \<open>String utilities (utils)\<close>

subsection \<open>matchesKeyword\<close>

text \<open>
  The regular-expression engine belongs to the JavaScript runtime and is taken as a
  parameter: \<open>compile pattern flags\<close> is \<^verbatim>\<open>new RegExp(pattern, flags)\<close>, which returns a
  regular expression or throws (a \<^verbatim>\<open>SyntaxError\<close> for a pattern that is not well formed),
  and \<open>test r s\<close> is \<^verbatim>\<open>r.test(s)\<close>. Nothing is assumed about either.
\<close>

record 'r regExpEngine =
  compile :: "string \<Rightarrow> string \<Rightarrow> error + 'r"
  test :: "'r \<Rightarrow> string \<Rightarrow> error + bool"

text \<open>The result is \<open>Inr b\<close> when the call returns \<open>b\<close> and \<open>Inl e\<close> when it throws \<open>e\<close>.
  The \<^verbatim>\<open>switch\<close> compares the \<^verbatim>\<open>matchType\<close> string with each label in turn; the
  \<^verbatim>\<open>try\<close> block of the regex case holds both the construction and the test, and its
  \<^verbatim>\<open>catch\<close> returns false.\<close>

definition matchesKeyword ::
  "'r regExpEngine \<Rightarrow> string \<Rightarrow> string \<Rightarrow> string \<Rightarrow> bool \<Rightarrow> error + bool" where
  "matchesKeyword eng message keyword matchType caseSensitive =
     (let msg = (if caseSensitive then message else toLowerCase message);
          kw = (if caseSensitive then keyword else toLowerCase keyword)
      in if matchType = ''contains'' then Inr (includesStr msg kw)
         else if matchType = ''equals'' then Inr (msg = kw)
         else if matchType = ''starts_with'' then Inr (startsWith msg kw)
         else if matchType = ''ends_with'' then Inr (endsWith msg kw)
         else if matchType = ''regex'' then
           (case compile eng keyword (if caseSensitive then [] else ''i'') of
              Inl e \<Rightarrow> Inr False
            | Inr regex \<Rightarrow>
                (case test eng regex message of
                   Inl e \<Rightarrow> Inr False
                 | Inr b \<Rightarrow> Inr b))
         else Inr False)"

subsection \<open>replaceVariables\<close>

text \<open>
  \<^verbatim>\<open>variables\<close> is a plain object (an object literal, or what \<^verbatim>\<open>JSON.parse\<close> built):
  its own properties are a map from names to strings, and its prototype is
  \<^verbatim>\<open>Object.prototype\<close>. The property read \<^verbatim>\<open>variables[key]\<close> gives the own property
  when there is one and the member of \<^verbatim>\<open>Object.prototype\<close> of that name otherwise, so
  it is \<^verbatim>\<open>undefined\<close> only for a name that is neither.
\<close>

type_synonym variables = "string \<rightharpoonup> string"

datatype jsValue = JsUndefined | JsString string | JsFunction string | JsObject

text \<open>The members of \<^verbatim>\<open>Object.prototype\<close>: eleven built-in functions, and the accessor
  \<^verbatim>\<open>__proto__\<close>, which reads as the prototype object itself.\<close>

definition objectPrototype :: "string \<Rightarrow> jsValue" where
  "objectPrototype key =
     (if key = ''constructor'' then JsFunction ''Object''
      else if key \<in> set [''__defineGetter__'', ''__defineSetter__'', ''hasOwnProperty'',
                          ''__lookupGetter__'', ''__lookupSetter__'', ''isPrototypeOf'',
                          ''propertyIsEnumerable'', ''toString'', ''valueOf'', ''toLocaleString'']
      then JsFunction key
      else if key = ''__proto__'' then JsObject
      else JsUndefined)"

definition getProperty :: "variables \<Rightarrow> string \<Rightarrow> jsValue" where
  "getProperty vars key = (case vars key of Some v \<Rightarrow> JsString v | None \<Rightarrow> objectPrototype key)"

text \<open>\<^verbatim>\<open>x || match\<close> keeps \<open>x\<close> unless it is falsy (undefined or the empty string);
  \<^verbatim>\<open>replace\<close> then converts what the callback returned to a string: a built-in function
  prints as its native-code source text, a plain object as \<^verbatim>\<open>[object Object]\<close>.\<close>

definition truthy :: "jsValue \<Rightarrow> bool" where
  "truthy v = (v \<noteq> JsUndefined \<and> v \<noteq> JsString [])"

definition toString :: "jsValue \<Rightarrow> string" where
  "toString v =
     (case v of
        JsUndefined \<Rightarrow> ''undefined''
      | JsString s \<Rightarrow> s
      | JsFunction name \<Rightarrow> ''function '' @ name @ ''() { [native code] }''
      | JsObject \<Rightarrow> ''[object Object]'')"

definition replacement :: "variables \<Rightarrow> string \<Rightarrow> string \<Rightarrow> string" where
  "replacement vars match key =
     toString (if truthy (getProperty vars key) then getProperty vars key else JsString match)"

text \<open>The class \<^verbatim>\<open>\w\<close>: ASCII letters, digits and the underscore.\<close>

definition isWordChar :: "char \<Rightarrow> bool" where
  "isWordChar c =
     ((97 \<le> code c \<and> code c \<le> 122) \<or> (65 \<le> code c \<and> code c \<le> 90)
      \<or> (48 \<le> code c \<and> code c \<le> 57) \<or> code c = 95)"

text \<open>One attempt of the pattern \<^verbatim>\<open>\{\{(\w+)\}\}\<close> at the start of \<open>s\<close>: two opening
  braces, the longest non-empty run of word characters, two closing braces. (A shorter
  run cannot help: it would be followed by a word character, not by a brace.) The answer
  is the captured key and the text after the match.\<close>

definition matchPlaceholder :: "string \<Rightarrow> (string \<times> string) option" where
  "matchPlaceholder s =
     (if startsWith s ''{{'' then
        (let key = takeWhile isWordChar (drop 2 s);
             after = dropWhile isWordChar (drop 2 s)
         in if key \<noteq> [] \<and> startsWith after ''}}'' then Some (key, drop 2 after) else None)
      else None)"

lemma matchPlaceholder_shorter:
  "matchPlaceholder s = Some (key, rest) \<Longrightarrow> length rest < length s"
proof -
  assume m: "matchPlaceholder s = Some (key, rest)"
  then have "rest = drop 2 (dropWhile isWordChar (drop 2 s))" and "startsWith s ''{{''"
    by (auto simp: matchPlaceholder_def Let_def split: if_splits)
  moreover have "length (dropWhile isWordChar (drop 2 s)) \<le> length (drop 2 s)"
    by (rule length_dropWhile_le)
  moreover have "s \<noteq> []"
    using \<open>startsWith s ''{{''\<close> by (cases s) auto
  ultimately show ?thesis
    by (cases s) auto
qed

text \<open>\<^verbatim>\<open>template.replace(/\{\{(\w+)\}\}/g, callback)\<close>: the global scan goes from left to
  right, replaces each match by what the callback returns for it and goes on after the
  match; where the pattern does not match, the character is copied.\<close>

function replaceVariables :: "string \<Rightarrow> variables \<Rightarrow> string" where
  "replaceVariables [] vars = []"
| "replaceVariables (c # cs) vars =
     (case matchPlaceholder (c # cs) of
        Some (key, rest) \<Rightarrow> replacement vars (''{{'' @ key @ ''}}'') key @ replaceVariables rest vars
      | None \<Rightarrow> c # replaceVariables cs vars)"
  by pat_completeness auto
termination
  by (relation "measure (\<lambda>(s, vars). length s)") (auto dest: matchPlaceholder_shorter)

text \<open>The keys of the placeholders the scan finds in a template, in order.\<close>

function placeholders :: "string \<Rightarrow> string list" where
  "placeholders [] = []"
| "placeholders (c # cs) =
     (case matchPlaceholder (c # cs) of
        Some (key, rest) \<Rightarrow> key # placeholders rest
      | None \<Rightarrow> placeholders cs)"
  by pat_completeness auto
termination
  by (relation "measure length") (auto dest: matchPlaceholder_shorter)

section \<open>Conversations (db)\<close>

text \<open>A \<^verbatim>\<open>Date\<close> is its time value, the milliseconds since the epoch. The conversation
  table is a map from the row id to the row.\<close>

datatype role = User | Assistant

record message =
  role :: role
  content :: string
  timestamp :: int
  messageId :: "string option"

record conversation =
  igAccountId :: string
  senderId :: string
  senderUsername :: "string option"
  messages :: "message list"
  firstMessageAt :: int
  lastMessageAt :: int

type_synonym conversations = "string \<rightharpoonup> conversation"

text \<open>
  The two operations of the database client that the function awaits, each of them one
  step of the database: \<^verbatim>\<open>findUnique\<close> by id with \<^verbatim>\<open>select: { messages: true }\<close>, and
  \<^verbatim>\<open>update\<close> by id of \<^verbatim>\<open>messages\<close> and \<^verbatim>\<open>lastMessageAt\<close>, which returns the updated row
  and throws the error with code \<^verbatim>\<open>P2025\<close> when there is no row to update.
\<close>

definition findUnique :: "string \<Rightarrow> conversations \<Rightarrow> message list option" where
  "findUnique conversationId db = map_option messages (db conversationId)"

definition update ::
  "string \<Rightarrow> message list \<Rightarrow> int \<Rightarrow> conversations \<Rightarrow> error + (conversation \<times> conversations)" where
  "update conversationId ms lastAt db =
     (case db conversationId of
        None \<Rightarrow> Inl (PrismaClientKnownRequestError ''P2025'')
      | Some c \<Rightarrow>
          (let c' = c\<lparr>messages := ms, lastMessageAt := lastAt\<rparr>
           in Inr (c', db(conversationId \<mapsto> c'))))"

text \<open>
  \<^verbatim>\<open>addMessageToConversation\<close> is an \<^verbatim>\<open>async\<close> function: it runs up to its first
  \<^verbatim>\<open>await\<close>, is resumed when \<^verbatim>\<open>findUnique\<close> has answered, pushes its message onto the
  list it was given, and settles with what \<^verbatim>\<open>update\<close> answers. No transaction and no lock
  joins the two operations, so the database may serve other calls between them. A call
  is therefore a machine with three stages: \<open>Called\<close> before its \<^verbatim>\<open>findUnique\<close> has run,
  \<open>Fetched\<close> with the list it read and pushed onto, and \<open>Settled\<close> with the row it
  returns or the error it throws. \<open>addMessageToConversation\<close> takes a call from its
  stage to the next, on the table as it is at that moment.
\<close>

datatype stage = Called | Fetched "message list" | Settled "error + conversation"

definition addMessageToConversation ::
  "string \<Rightarrow> message \<Rightarrow> stage \<Rightarrow> conversations \<Rightarrow> stage \<times> conversations" where
  "addMessageToConversation conversationId msg st db =
     (case st of
        Called \<Rightarrow>
          (case findUnique conversationId db of
             None \<Rightarrow> (Settled (Inl (Error ''Conversation not found'')), db)
           | Some ms \<Rightarrow> (Fetched (ms @ [msg]), db))
      | Fetched ms \<Rightarrow>
          (case update conversationId ms (timestamp msg) db of
             Inl e \<Rightarrow> (Settled (Inl e), db)
           | Inr (c, db') \<Rightarrow> (Settled (Inr c), db'))
      | Settled r \<Rightarrow> (Settled r, db))"

text \<open>
  Several calls in flight. \<open>calls\<close> are the arguments of the calls, in the order in
  which they were made; a schedule names, step by step, the call whose pending database
  operation runs next, so the first time a call is named its \<^verbatim>\<open>findUnique\<close> runs and the
  second time its \<^verbatim>\<open>update\<close>. Every schedule keeps each call's own two operations in
  their order, and every order of the operations of different calls is a schedule.
\<close>

type_synonym inFlight = "(nat \<Rightarrow> stage) \<times> conversations"

definition resume :: "(string \<times> message) list \<Rightarrow> nat \<Rightarrow> inFlight \<Rightarrow> inFlight" where
  "resume calls k s =
     (if k < length calls then
        (case addMessageToConversation (fst (calls ! k)) (snd (calls ! k)) (fst s k) (snd s) of
           (st, db) \<Rightarrow> ((fst s)(k := st), db))
      else s)"

fun interleave :: "(string \<times> message) list \<Rightarrow> nat list \<Rightarrow> inFlight \<Rightarrow> inFlight" where
  "interleave calls [] s = s"
| "interleave calls (k # ks) s = interleave calls ks (resume calls k s)"

definition pending :: "conversations \<Rightarrow> inFlight" where
  "pending db = (\<lambda>k. Called, db)"

text \<open>The schedule without overlap: each of the first \<open>n\<close> calls runs both its
  operations before the next call runs its first.\<close>

definition oneByOne :: "nat \<Rightarrow> nat list" where
  "oneByOne n = concat (map (\<lambda>k. [k, k]) [0..<n])"

text \<open>The order the claim is about: the timestamps of a message list never go down.\<close>

definition inTimestampOrder :: "message list \<Rightarrow> bool" where
  "inTimestampOrder ms = sorted (map timestamp ms)"

section \<open>Webhook server and queues\<close>

subsection \<open>The queue library\<close>

text \<open>
  \<^verbatim>\<open>Queue.add(name, data, opts)\<close> of the queue library, called without a job id as
  the source does: the library gives the job the next value of the queue's counter as its
  id and stores it. No job is looked up or compared with another.
\<close>

record webhookJobData =
  eventType :: string
  payload :: string
  receivedAt :: string
  wj_igAccountId :: "string option"

record job =
  job_id :: nat
  job_name :: string
  job_data :: webhookJobData
  job_priority :: nat

record queue =
  counter :: nat
  jobs :: "job list"

definition add :: "string \<Rightarrow> webhookJobData \<Rightarrow> nat \<Rightarrow> queue \<Rightarrow> job \<times> queue" where
  "add name d prio q =
     (let j = \<lparr>job_id = counter q + 1, job_name = name, job_data = d, job_priority = prio\<rparr>
      in (j, \<lparr>counter = counter q + 1, jobs = jobs q @ [j]\<rparr>))"

subsection \<open>The state of the running system\<close>

datatype processingStatus = Success | Failed | Pending | Skipped

record activity =
  automationId :: "string option"
  conversationId :: "string option"
  incomingMessage :: string
  outgoingResponse :: "string option"
  activityStatus :: processingStatus
  errorMessage :: "string option"

text \<open>
  What the pipeline can change: the standard output of the webhook server, the queue of
  webhook events, the rows of the activity log, and the world of the API client, whose
  \<open>requests\<close> are the outbound sends. \<open>env\<close> is \<^verbatim>\<open>process.env\<close>.
\<close>

record system =
  env :: "string \<rightharpoonup> string"
  stdout :: "string list"
  webhookQueue :: queue
  activityLog :: "activity list"
  api :: world

definition queueWebhookEvent :: "webhookJobData \<Rightarrow> system \<Rightarrow> job \<times> system" where
  "queueWebhookEvent d s =
     (case add ''webhook-event'' d 1 (webhookQueue s) of
        (j, q) \<Rightarrow> (j, s\<lparr>webhookQueue := q\<rparr>))"

definition logActivity :: "activity \<Rightarrow> system \<Rightarrow> activity \<times> system" where
  "logActivity d s = (d, s\<lparr>activityLog := activityLog s @ [d]\<rparr>)"

subsection \<open>The handlers\<close>

text \<open>
  A request as the handlers see it, behind the \<^verbatim>\<open>express.json()\<close> middleware: the query
  parameters, the headers, and \<open>body\<close>, the text \<^verbatim>\<open>JSON.stringify(req.body)\<close> returns.
  \<open>body\<close> is \<open>None\<close> when \<^verbatim>\<open>req.body\<close> is undefined, as it is where the middleware
  has not filled it in; \<^verbatim>\<open>JSON.stringify\<close> then returns undefined and \<^verbatim>\<open>.slice\<close> on that
  throws a \<^verbatim>\<open>TypeError\<close>. A handler answers with a status code and an optional body, or
  throws.
\<close>

record httpRequest =
  query :: "string \<rightharpoonup> string"
  req_headers :: "string \<rightharpoonup> string"
  body :: "string option"

definition getWebhook :: "httpRequest \<Rightarrow> system \<Rightarrow> (int \<times> string option) \<times> system" where
  "getWebhook req s =
     (if query req ''hub.mode'' = Some ''subscribe''
         \<and> query req ''hub.verify_token'' = env s ''WEBHOOK_VERIFY_TOKEN''
      then ((200, query req ''hub.challenge''), s)
      else ((403, None), s))"

definition postWebhook :: "httpRequest \<Rightarrow> system \<Rightarrow> (error + int) \<times> system" where
  "postWebhook req s =
     (case body req of
        None \<Rightarrow> (Inl (TypeError ''Cannot read properties of undefined (reading 'slice')''), s)
      | Some b \<Rightarrow> (Inr 200, s\<lparr>stdout := stdout s @ [''webhook event '' @ take 200 b]\<rparr>))"

text \<open>The same request delivered \<open>n\<close> times, one delivery after the other; the answers
  are collected in order.\<close>

fun deliver :: "nat \<Rightarrow> httpRequest \<Rightarrow> system \<Rightarrow> (error + int) list \<times> system" where
  "deliver 0 req s = ([], s)"
| "deliver (Suc n) req s =
     (case postWebhook req s of
        (r, s') \<Rightarrow> (case deliver n req s' of (rs, s'') \<Rightarrow> (r # rs, s'')))"

text \<open>The same job data queued \<open>n\<close> times.\<close>

fun queueTimes :: "nat \<Rightarrow> webhookJobData \<Rightarrow> system \<Rightarrow> system" where
  "queueTimes 0 d s = s"
| "queueTimes (Suc n) d s = queueTimes n d (snd (queueWebhookEvent d s))"

section \<open>AI service\<close>

text \<open>
  Temperatures and costs are JavaScript numbers with a fractional part; the model holds
  them as rationals, the exact values of the decimal literals of the source, where
  JavaScript computes in binary floating point, and a cost that is \<^verbatim>\<open>NaN\<close> as \<open>None\<close>.
  No property below depends on them.
\<close>

datatype aiProvider = OpenAI | Gemini | Anthropic

definition providerName :: "aiProvider \<Rightarrow> string" where
  "providerName p = (case p of OpenAI \<Rightarrow> ''openai'' | Gemini \<Rightarrow> ''gemini'' | Anthropic \<Rightarrow> ''anthropic'')"

datatype aiRole = SystemRole | UserRole | AssistantRole

datatype tonePreset = Professional | Friendly | Casual | Enthusiastic | Formal

record aiMessage =
  ai_role :: aiRole
  ai_content :: string

record aiGenerateRequest =
  conversationHistory :: "aiMessage list"
  businessContext :: string
  tone :: tonePreset
  customInstructions :: "string option"
  maxTokens :: "int option"
  temperature :: "rat option"

record aiGenerateResponse =
  message :: string
  tokensUsed :: int
  model :: string
  cost :: "rat option"
  processingTimeMs :: int

subsection \<open>The provider SDKs\<close>

text \<open>
  The two SDK clients are external and are given by what their calls answer.
  \<^verbatim>\<open>openai.chat.completions.create(params)\<close> returns a completion or throws. For Gemini,
  \<^verbatim>\<open>getGenerativeModel\<close> and \<^verbatim>\<open>startChat\<close> return a chat or throw, and the chat answers a
  prompt (\<^verbatim>\<open>sendMessage\<close>, then \<^verbatim>\<open>response.text()\<close>) with a text or throws.
\<close>

record chatParams =
  cp_model :: string
  cp_messages :: "(aiRole \<times> string) list"
  cp_temperature :: rat
  max_tokens :: int

record completion =
  choices :: "string option list"
  total_tokens :: "int option"

record geminiParams =
  g_model :: string
  history :: "(string \<times> string) list"
  g_temperature :: rat
  maxOutputTokens :: int

type_synonym openaiClient = "chatParams \<Rightarrow> error + completion"
type_synonym geminiChat = "string \<Rightarrow> error + string"
type_synonym geminiClient = "geminiParams \<Rightarrow> error + geminiChat"

record aiService =
  provider :: aiProvider
  openai :: "openaiClient option"
  gemini :: "geminiClient option"
  svc_model :: string

text \<open>The constructor: \<open>newOpenAI\<close> and \<open>newGemini\<close> stand for the SDK constructors
  applied to the API key.\<close>

definition newAIService ::
  "(string \<Rightarrow> openaiClient) \<Rightarrow> (string \<Rightarrow> geminiClient) \<Rightarrow> aiProvider \<Rightarrow> string \<Rightarrow> string option
     \<Rightarrow> aiService" where
  "newAIService newOpenAI newGemini p apiKey m =
     (if p = OpenAI then
        \<lparr>provider = p, openai = Some (newOpenAI apiKey), gemini = None,
         svc_model = orElse m ''gpt-3.5-turbo''\<rparr>
      else if p = Gemini then
        \<lparr>provider = p, openai = None, gemini = Some (newGemini apiKey),
         svc_model = orElse m ''gemini-pro''\<rparr>
      else \<lparr>provider = p, openai = None, gemini = None, svc_model = ''gpt-3.5-turbo''\<rparr>)"

subsection \<open>Costs (utils)\<close>

text \<open>
  Both functions read \<^verbatim>\<open>pricing[model] || ...\<close> on an object literal, a lookup that also
  finds the members the literal inherits from \<^verbatim>\<open>Object.prototype\<close>. Such a member is
  truthy and holds no price, so for a model of that name the arithmetic gives \<^verbatim>\<open>NaN\<close>
  (\<open>None\<close>); every other unlisted model takes the default price.
\<close>

definition calculateOpenAICost :: "string \<Rightarrow> int \<Rightarrow> rat option" where
  "calculateOpenAICost m tokens =
     (if objectPrototype m \<noteq> JsUndefined then None
      else
        (let (input, output) =
               (if m = ''gpt-4'' then (3 / 100, 6 / 100)
                else if m = ''gpt-4-turbo'' then (1 / 100, 3 / 100)
                else if m = ''gpt-3.5-turbo-16k'' then (3 / 1000, 4 / 1000)
                else (5 / 10000, 15 / 10000));
             avgCostPer1K = (input + output) / 2
         in Some ((of_int tokens / 1000) * avgCostPer1K)))"

definition calculateGeminiCost :: "string \<Rightarrow> int \<Rightarrow> rat option" where
  "calculateGeminiCost m tokens =
     (if objectPrototype m \<noteq> JsUndefined then None
      else Some ((of_int tokens / 1000) * (25 / 100000)))"

subsection \<open>Prompts\<close>

definition getToneInstructions :: "tonePreset \<Rightarrow> string" where
  "getToneInstructions t =
     (case t of
        Professional \<Rightarrow> ''Use professional, polished language. Be respectful and formal. Avoid slang and excessive emojis.''
      | Friendly \<Rightarrow> ''Be warm and approachable. Use a conversational tone with occasional emojis. Sound like a helpful friend.''
      | Casual \<Rightarrow> ''Keep it relaxed and informal. Use everyday language and emojis. Be personable and easy-going.''
      | Enthusiastic \<Rightarrow> ''Show excitement and energy! Use exclamation points and emojis. Be upbeat and positive.''
      | Formal \<Rightarrow> ''Maintain strict formality. Use proper grammar and professional vocabulary. No emojis or casual language.'')"

definition buildSystemPrompt :: "string \<Rightarrow> tonePreset \<Rightarrow> string option \<Rightarrow> string" where
  "buildSystemPrompt context t custom =
     ''You are an AI assistant helping with Instagram direct messages for a business.\<newline>\<newline>''
     @ ''BUSINESS CONTEXT:\<newline>'' @ context @ ''\<newline>\<newline>''
     @ ''TONE & STYLE:\<newline>'' @ getToneInstructions t @ ''\<newline>\<newline>''
     @ ''INSTRUCTIONS:\<newline>''
     @ ''1. Respond naturally and conversationally\<newline>''
     @ ''2. Keep responses concise (1-3 sentences max)\<newline>''
     @ ''3. Be helpful and address the user's question or concern\<newline>''
     @ ''4. Use the business context to provide relevant information\<newline>''
     @ ''5. Don't mention that you're an AI unless asked\<newline>''
     @ ''6. Use emojis sparingly and appropriately\<newline>''
     @ ''7. If you don't know something, be honest and offer to help in another way\<newline>''
     @ (case custom of
          None \<Rightarrow> []
        | Some ci \<Rightarrow> (if ci = [] then [] else ''\<newline>ADDITIONAL INSTRUCTIONS:\<newline>'' @ ci))
     @ ''\<newline>\<newline>Generate a response to the user's latest message following these guidelines.''"

subsection \<open>Generating the reply\<close>

text \<open>\<^verbatim>\<open>x || d\<close> on an optional number: \<open>d\<close> when \<open>x\<close> is undefined or zero.\<close>

definition orDefault :: "'a::zero option \<Rightarrow> 'a \<Rightarrow> 'a" where
  "orDefault x d = (case x of None \<Rightarrow> d | Some v \<Rightarrow> (if v = 0 then d else v))"

text \<open>The arguments of the two provider calls, as the source builds them.\<close>

definition openAIParams :: "aiService \<Rightarrow> aiGenerateRequest \<Rightarrow> chatParams" where
  "openAIParams svc request =
     (let systemPrompt = buildSystemPrompt (businessContext request) (tone request) (customInstructions request)
      in \<lparr>cp_model = svc_model svc,
          cp_messages = (SystemRole, systemPrompt) # map (\<lambda>m. (ai_role m, ai_content m)) (conversationHistory request),
          cp_temperature = orDefault (temperature request) (7 / 10),
          max_tokens = orDefault (maxTokens request) 500\<rparr>)"

definition geminiChatParams :: "aiService \<Rightarrow> aiGenerateRequest \<Rightarrow> geminiParams" where
  "geminiChatParams svc request =
     \<lparr>g_model = svc_model svc,
      history = map (\<lambda>m. (if ai_role m = AssistantRole then ''model'' else ''user'', ai_content m))
                    (butlast (conversationHistory request)),
      g_temperature = orDefault (temperature request) (7 / 10),
      maxOutputTokens = orDefault (maxTokens request) 500\<rparr>"

definition geminiPrompt :: "aiGenerateRequest \<Rightarrow> string" where
  "geminiPrompt request =
     buildSystemPrompt (businessContext request) (tone request) (customInstructions request)
     @ ''\<newline>\<newline>User message: '' @ ai_content (last (conversationHistory request))"

definition generateOpenAIResponse :: "aiService \<Rightarrow> aiGenerateRequest \<Rightarrow> error + aiGenerateResponse" where
  "generateOpenAIResponse svc request =
     (case openai svc of
        None \<Rightarrow> Inl (Error ''OpenAI client not initialized'')
      | Some create \<Rightarrow>
          (case create (openAIParams svc request) of
             Inl e \<Rightarrow> Inl e
           | Inr c \<Rightarrow>
               (case choices c of
                  [] \<Rightarrow> Inl (TypeError ''Cannot read properties of undefined (reading 'message')'')
                | first # _ \<Rightarrow>
                    (let tokens = orDefault (total_tokens c) 0
                     in Inr \<lparr>message = orElse first [], tokensUsed = tokens, model = svc_model svc,
                             cost = calculateOpenAICost (svc_model svc) tokens,
                             processingTimeMs = 0\<rparr>))))"

text \<open>For Gemini the chat is started first; reading the last message of an empty history
  throws a \<^verbatim>\<open>TypeError\<close>; then the prompt is sent.\<close>

definition generateGeminiResponse :: "aiService \<Rightarrow> aiGenerateRequest \<Rightarrow> error + aiGenerateResponse" where
  "generateGeminiResponse svc request =
     (case gemini svc of
        None \<Rightarrow> Inl (Error ''Gemini client not initialized'')
      | Some startChat \<Rightarrow>
          (case startChat (geminiChatParams svc request) of
             Inl e \<Rightarrow> Inl e
           | Inr chat \<Rightarrow>
               (if conversationHistory request = []
                then Inl (TypeError ''Cannot read properties of undefined (reading 'content')'')
                else
                  (case chat (geminiPrompt request) of
                     Inl e \<Rightarrow> Inl e
                   | Inr txt \<Rightarrow>
                       (let tokens = (int (length txt + length (geminiPrompt request)) + 3) div 4
                        in Inr \<lparr>message = txt, tokensUsed = tokens, model = svc_model svc,
                                cost = calculateGeminiCost (svc_model svc) tokens,
                                processingTimeMs = 0\<rparr>)))))"

text \<open>\<^verbatim>\<open>generateResponse\<close>, with the two readings of \<^verbatim>\<open>Date.now()\<close> as arguments. The
  second component is what the logger wrote.\<close>

definition generateResponse ::
  "aiService \<Rightarrow> aiGenerateRequest \<Rightarrow> int \<Rightarrow> int \<Rightarrow> (error + aiGenerateResponse) \<times> (level \<times> string) list" where
  "generateResponse svc request startTime endTime =
     (case (if provider svc = OpenAI \<and> openai svc \<noteq> None then generateOpenAIResponse svc request
            else if provider svc = Gemini \<and> gemini svc \<noteq> None then generateGeminiResponse svc request
            else Inl (Error (''Unsupported AI provider: '' @ providerName (provider svc)))) of
        Inr r \<Rightarrow>
          (Inr (r\<lparr>processingTimeMs := endTime - startTime\<rparr>),
           [(INFO, ''Generating AI response''), (INFO, ''AI response generated'')])
      | Inl e \<Rightarrow>
          (Inl e, [(INFO, ''Generating AI response''), (ERROR, ''Failed to generate AI response'')]))"

subsection \<open>Sentiment\<close>

definition simpleSentimentAnalysis :: "string \<Rightarrow> string" where
  "simpleSentimentAnalysis msg =
     (let lowerMessage = toLowerCase msg;
          positiveWords = [''great'', ''awesome'', ''excellent'', ''love'', ''thanks'', ''perfect'', ''amazing'', ''good''];
          negativeWords = [''bad'', ''terrible'', ''awful'', ''hate'', ''worst'', ''poor'', ''disappointed'', ''angry''];
          positiveCount = length (filter (\<lambda>word. includesStr lowerMessage word) positiveWords);
          negativeCount = length (filter (\<lambda>word. includesStr lowerMessage word) negativeWords)
      in if positiveCount > negativeCount then ''positive''
         else if negativeCount > positiveCount then ''negative''
         else ''neutral'')"

text \<open>\<^verbatim>\<open>analyzeSentiment\<close>: the whole body is inside \<^verbatim>\<open>try\<close>, and the \<^verbatim>\<open>catch\<close> logs and
  returns \<^verbatim>\<open>'neutral'\<close>. The keyword count is what the function returns when the provider
  is not OpenAI.\<close>

definition analyzeSentiment :: "aiService \<Rightarrow> string \<Rightarrow> string \<times> (level \<times> string) list" where
  "analyzeSentiment svc msg =
     (case (if provider svc = OpenAI then openai svc else None) of
        Some create \<Rightarrow>
          (case create \<lparr>cp_model = ''gpt-3.5-turbo'',
                        cp_messages = [(SystemRole, ''Analyze the sentiment of the message. Respond with only one word: positive, neutral, or negative.''),
                                       (UserRole, msg)],
                        cp_temperature = 3 / 10, max_tokens = 10\<rparr> of
             Inl e \<Rightarrow> (''neutral'', [(ERROR, ''Failed to analyze sentiment'')])
           | Inr c \<Rightarrow>
               (case choices c of
                  [] \<Rightarrow> (''neutral'', [(ERROR, ''Failed to analyze sentiment'')])
                | first # _ \<Rightarrow> (orElse (map_option (\<lambda>s. trim (toLowerCase s)) first) ''neutral'', [])))
      | None \<Rightarrow> (simpleSentimentAnalysis msg, []))"

section \<open>Encryption utilities (utils)\<close>

text \<open>
  \<^verbatim>\<open>encrypt\<close> turns the plaintext into bytes with the \<^verbatim>\<open>'utf8'\<close> encoding and \<^verbatim>\<open>decrypt\<close>
  turns bytes back into a string, so here a string is what JavaScript has: a sequence of
  16-bit code units, of any value. A \<^verbatim>\<open>Buffer\<close> is a list of bytes.
\<close>

type_synonym byte = "8 word"
type_synonym jsString = "16 word list"

definition js :: "string \<Rightarrow> jsString" where
  "js s = map (\<lambda>c. of_nat (of_char c)) s"

subsection \<open>Strings to bytes and back: the encoding 'utf8'\<close>

text \<open>
  Writing a string as UTF-8: a high surrogate followed by a low surrogate is one code
  point above U+FFFF and takes four bytes; a surrogate without its partner cannot be
  written and is replaced by U+FFFD, the bytes EF BF BD; every other code unit is its own
  code point and takes one to three bytes.
\<close>

definition isHighSurrogate :: "16 word \<Rightarrow> bool" where
  "isHighSurrogate u = (0xD800 \<le> unat u \<and> unat u < 0xDC00)"

definition isLowSurrogate :: "16 word \<Rightarrow> bool" where
  "isLowSurrogate u = (0xDC00 \<le> unat u \<and> unat u < 0xE000)"

definition replacementBytes :: "byte list" where
  "replacementBytes = [0xEF, 0xBF, 0xBD]"

definition utf8Bytes :: "nat \<Rightarrow> byte list" where
  "utf8Bytes cp =
     (if cp < 0x80 then [of_nat cp]
      else if cp < 0x800 then [of_nat (0xC0 + cp div 64), of_nat (0x80 + cp mod 64)]
      else if cp < 0x10000 then
        [of_nat (0xE0 + cp div 4096), of_nat (0x80 + cp div 64 mod 64), of_nat (0x80 + cp mod 64)]
      else [of_nat (0xF0 + cp div 262144), of_nat (0x80 + cp div 4096 mod 64),
            of_nat (0x80 + cp div 64 mod 64), of_nat (0x80 + cp mod 64)])"

fun utf8Encode :: "jsString \<Rightarrow> byte list" where
  "utf8Encode [] = []"
| "utf8Encode [u] =
     (if isHighSurrogate u \<or> isLowSurrogate u then replacementBytes else utf8Bytes (unat u))"
| "utf8Encode (u # l # us) =
     (if isHighSurrogate u \<and> isLowSurrogate l
      then utf8Bytes (0x10000 + (unat u - 0xD800) * 0x400 + (unat l - 0xDC00)) @ utf8Encode us
      else if isHighSurrogate u \<or> isLowSurrogate u then replacementBytes @ utf8Encode (l # us)
      else utf8Bytes (unat u) @ utf8Encode (l # us))"

text \<open>
  Reading UTF-8 bytes as a string (\<^verbatim>\<open>Buffer.prototype.toString\<close>): a lead byte says how
  many continuation bytes follow, and the first of them has a narrower range after the
  leads E0, ED, F0 and F4, which keeps overlong forms, surrogates and values above
  U+10FFFF out. Where the bytes are not a well-formed sequence, the longest part that
  could begin one becomes a single U+FFFD and reading goes on behind it. A code point
  above U+FFFF is written as a surrogate pair.
\<close>

definition inRange :: "nat \<Rightarrow> nat \<Rightarrow> byte \<Rightarrow> bool" where
  "inRange lo hi b = (lo \<le> unat b \<and> unat b \<le> hi)"

definition isContinuation :: "byte \<Rightarrow> bool" where
  "isContinuation b = inRange 0x80 0xBF b"

definition lowerBoundary :: "nat \<Rightarrow> nat" where
  "lowerBoundary lead = (if lead = 0xE0 then 0xA0 else if lead = 0xF0 then 0x90 else 0x80)"

definition upperBoundary :: "nat \<Rightarrow> nat" where
  "upperBoundary lead = (if lead = 0xED then 0x9F else if lead = 0xF4 then 0x8F else 0xBF)"

definition codeUnits :: "nat \<Rightarrow> jsString" where
  "codeUnits cp =
     (if cp < 0x10000 then [of_nat cp]
      else [of_nat (0xD800 + (cp - 0x10000) div 0x400), of_nat (0xDC00 + (cp - 0x10000) mod 0x400)])"

definition continuationBits :: "byte \<Rightarrow> nat" where
  "continuationBits b = unat b mod 64"

fun utf8Decode :: "byte list \<Rightarrow> jsString" where
  "utf8Decode [] = []"
| "utf8Decode (b # bs) =
     (let lead = unat b in
      if lead < 0x80 then of_nat lead # utf8Decode bs
      else if 0xC2 \<le> lead \<and> lead \<le> 0xDF then
        (case bs of
           b1 # r1 \<Rightarrow>
             (if isContinuation b1
              then codeUnits ((lead - 0xC0) * 64 + continuationBits b1) @ utf8Decode r1
              else 0xFFFD # utf8Decode bs)
         | [] \<Rightarrow> [0xFFFD])
      else if 0xE0 \<le> lead \<and> lead \<le> 0xEF then
        (case bs of
           b1 # r1 \<Rightarrow>
             (if inRange (lowerBoundary lead) (upperBoundary lead) b1 then
                (case r1 of
                   b2 # r2 \<Rightarrow>
                     (if isContinuation b2
                      then codeUnits ((lead - 0xE0) * 4096 + continuationBits b1 * 64
                                      + continuationBits b2) @ utf8Decode r2
                      else 0xFFFD # utf8Decode r1)
                 | [] \<Rightarrow> [0xFFFD])
              else 0xFFFD # utf8Decode bs)
         | [] \<Rightarrow> [0xFFFD])
      else if 0xF0 \<le> lead \<and> lead \<le> 0xF4 then
        (case bs of
           b1 # r1 \<Rightarrow>
             (if inRange (lowerBoundary lead) (upperBoundary lead) b1 then
                (case r1 of
                   b2 # r2 \<Rightarrow>
                     (if isContinuation b2 then
                        (case r2 of
                           b3 # r3 \<Rightarrow>
                             (if isContinuation b3
                              then codeUnits ((lead - 0xF0) * 262144 + continuationBits b1 * 4096
                                              + continuationBits b2 * 64 + continuationBits b3)
                                   @ utf8Decode r3
                              else 0xFFFD # utf8Decode r2)
                         | [] \<Rightarrow> [0xFFFD])
                      else 0xFFFD # utf8Decode r1)
                 | [] \<Rightarrow> [0xFFFD])
              else 0xFFFD # utf8Decode bs)
         | [] \<Rightarrow> [0xFFFD])
      else 0xFFFD # utf8Decode bs)"

text \<open>A string is well formed when every surrogate in it is half of a pair.\<close>

fun wellFormed :: "jsString \<Rightarrow> bool" where
  "wellFormed [] = True"
| "wellFormed [u] = (\<not> isHighSurrogate u \<and> \<not> isLowSurrogate u)"
| "wellFormed (u # l # us) =
     (if isHighSurrogate u then isLowSurrogate l \<and> wellFormed us
      else \<not> isLowSurrogate u \<and> wellFormed (l # us))"

subsection \<open>Bytes to text and back: the encoding 'base64'\<close>

text \<open>
  \<^verbatim>\<open>buffer.toString('base64')\<close> writes three bytes as four characters of the alphabet
  A-Z, a-z, 0-9, +, / and pads the last group with \<^verbatim>\<open>=\<close>. \<^verbatim>\<open>Buffer.from(s, 'base64')\<close>
  also accepts the URL alphabet (- and _), skips every character of neither alphabet and
  stops at the first \<^verbatim>\<open>=\<close>.
\<close>

definition base64Char :: "nat \<Rightarrow> char" where
  "base64Char n =
     (if n < 26 then char_of (65 + n)
      else if n < 52 then char_of (71 + n)
      else if n < 62 then char_of (n - 4)
      else if n = 62 then CHR ''+''
      else CHR ''/'')"

fun base64Encode :: "byte list \<Rightarrow> string" where
  "base64Encode [] = []"
| "base64Encode [a] =
     [base64Char (unat a div 4), base64Char (unat a mod 4 * 16), CHR ''='', CHR ''='']"
| "base64Encode [a, b] =
     [base64Char (unat a div 4), base64Char (unat a mod 4 * 16 + unat b div 16),
      base64Char (unat b mod 16 * 4), CHR ''='']"
| "base64Encode (a # b # c # rest) =
     [base64Char (unat a div 4), base64Char (unat a mod 4 * 16 + unat b div 16),
      base64Char (unat b mod 16 * 4 + unat c div 64), base64Char (unat c mod 64)]
     @ base64Encode rest"

definition unbase64 :: "char \<Rightarrow> nat option" where
  "unbase64 c =
     (let n = (of_char c :: nat) in
      if 65 \<le> n \<and> n \<le> 90 then Some (n - 65)
      else if 97 \<le> n \<and> n \<le> 122 then Some (n - 71)
      else if 48 \<le> n \<and> n \<le> 57 then Some (n + 4)
      else if n = 43 \<or> n = 45 then Some 62
      else if n = 47 \<or> n = 95 then Some 63
      else None)"

fun sextets :: "string \<Rightarrow> nat list" where
  "sextets [] = []"
| "sextets (c # cs) =
     (case unbase64 c of
        Some n \<Rightarrow> n # sextets cs
      | None \<Rightarrow> (if c = CHR ''='' then [] else sextets cs))"

fun fromSextets :: "nat list \<Rightarrow> byte list" where
  "fromSextets (a # b # c # d # rest) =
     [of_nat (a * 4 + b div 16), of_nat (b mod 16 * 16 + c div 4), of_nat (c mod 4 * 64 + d)]
     @ fromSextets rest"
| "fromSextets [a, b, c] = [of_nat (a * 4 + b div 16), of_nat (b mod 16 * 16 + c div 4)]"
| "fromSextets [a, b] = [of_nat (a * 4 + b div 16)]"
| "fromSextets [a] = []"
| "fromSextets [] = []"

definition base64Decode :: "string \<Rightarrow> byte list" where
  "base64Decode s = fromSextets (sextets s)"

subsection \<open>The crypto module\<close>

text \<open>
  The key derivation and the cipher belong to the runtime's \<^verbatim>\<open>crypto\<close> module and are
  parameters. \<open>pbkdf2Sync password salt iterations keylen digest\<close> is the derived key.
  \<open>cipher key iv plain\<close> stands for \<^verbatim>\<open>createCipheriv('aes-256-gcm', key, iv)\<close> with
  \<^verbatim>\<open>update\<close>, \<^verbatim>\<open>final\<close> and \<^verbatim>\<open>getAuthTag\<close>: it gives the ciphertext and the tag, or throws.
  \<open>decipher key iv tag encrypted\<close> stands for \<^verbatim>\<open>createDecipheriv\<close> with \<^verbatim>\<open>setAuthTag\<close>,
  \<^verbatim>\<open>update\<close> and \<^verbatim>\<open>final\<close>: it gives the plain bytes, or throws, as it does when the tag
  does not authenticate the ciphertext.
\<close>

record cryptoLib =
  pbkdf2Sync :: "jsString \<Rightarrow> byte list \<Rightarrow> nat \<Rightarrow> nat \<Rightarrow> string \<Rightarrow> byte list"
  cipher :: "byte list \<Rightarrow> byte list \<Rightarrow> byte list \<Rightarrow> error + (byte list \<times> byte list)"
  decipher :: "byte list \<Rightarrow> byte list \<Rightarrow> byte list \<Rightarrow> byte list \<Rightarrow> error + byte list"

text \<open>What the code relies on: the derived key has the length asked for, and with a key
  of 32 bytes and an IV of 16 bytes the cipher succeeds, its tag has 16 bytes, and the
  decipher with the same key, IV and tag gives the plain bytes back.\<close>

definition nodeCrypto :: "cryptoLib \<Rightarrow> bool" where
  "nodeCrypto lib =
     ((\<forall>password salt iterations keylen digest.
         length (pbkdf2Sync lib password salt iterations keylen digest) = keylen)
      \<and> (\<forall>key iv plain. length key = 32 \<and> length iv = 16 \<longrightarrow>
           (\<exists>encrypted tag. cipher lib key iv plain = Inr (encrypted, tag) \<and> length tag = 16
              \<and> decipher lib key iv tag encrypted = Inr plain)))"

text \<open>\<^verbatim>\<open>crypto.randomBytes(n)\<close> takes the next \<open>n\<close> bytes of the entropy source.\<close>

type_synonym entropy = "nat \<Rightarrow> byte"

definition randomBytes :: "nat \<Rightarrow> entropy \<Rightarrow> byte list \<times> entropy" where
  "randomBytes n ent = (map ent [0..<n], \<lambda>i. ent (i + n))"

subsection \<open>encrypt and decrypt\<close>

definition IV_LENGTH :: nat where "IV_LENGTH = 16"
definition SALT_LENGTH :: nat where "SALT_LENGTH = 64"
definition TAG_LENGTH :: nat where "TAG_LENGTH = 16"
definition TAG_POSITION :: nat where "TAG_POSITION = SALT_LENGTH + IV_LENGTH"
definition ENCRYPTED_POSITION :: nat where "ENCRYPTED_POSITION = TAG_POSITION + TAG_LENGTH"

text \<open>\<^verbatim>\<open>buffer.slice(start, end)\<close> for \<open>start \<le> end\<close>; positions behind the end of the
  buffer give fewer bytes.\<close>

definition slice :: "nat \<Rightarrow> nat \<Rightarrow> byte list \<Rightarrow> byte list" where
  "slice start end buffer = take (end - start) (drop start buffer)"

definition encrypt ::
  "cryptoLib \<Rightarrow> jsString \<Rightarrow> jsString \<Rightarrow> entropy \<Rightarrow> (error + string) \<times> entropy" where
  "encrypt lib plaintext secretKey ent =
     (case randomBytes IV_LENGTH ent of
        (iv, ent1) \<Rightarrow>
          (case randomBytes SALT_LENGTH ent1 of
             (salt, ent2) \<Rightarrow>
               (let key = pbkdf2Sync lib secretKey salt 100000 32 ''sha512''
                in case cipher lib key iv (utf8Encode plaintext) of
                     Inl e \<Rightarrow> (Inl e, ent2)
                   | Inr (encrypted, tag) \<Rightarrow>
                       (Inr (base64Encode (salt @ iv @ tag @ encrypted)), ent2))))"

text \<open>In \<^verbatim>\<open>decipher.update(encrypted) + decipher.final('utf8')\<close> the first operand is a
  \<^verbatim>\<open>Buffer\<close>, which \<^verbatim>\<open>+\<close> converts to a string with \<^verbatim>\<open>toString()\<close>, that is as UTF-8;
  the second is empty once the tag is verified.\<close>

definition decrypt :: "cryptoLib \<Rightarrow> string \<Rightarrow> jsString \<Rightarrow> error + jsString" where
  "decrypt lib encryptedData secretKey =
     (let buffer = base64Decode encryptedData;
          salt = slice 0 SALT_LENGTH buffer;
          iv = slice SALT_LENGTH TAG_POSITION buffer;
          tag = slice TAG_POSITION ENCRYPTED_POSITION buffer;
          encrypted = drop ENCRYPTED_POSITION buffer;
          key = pbkdf2Sync lib secretKey salt 100000 32 ''sha512''
      in case decipher lib key iv tag encrypted of
           Inl e \<Rightarrow> Inl e
         | Inr decrypted \<Rightarrow> Inr (utf8Decode decrypted))"

section \<open>Example inputs\<close>


text \<open>The error of a response with status 429 and \<^verbatim>\<open>Retry-After: 30\<close>; a platform that
  answers the first POST with it and accepts the next; and a platform that answers every
  POST with it.\<close>

definition tooMany :: axiosError where
  "tooMany = \<lparr>response = Some \<lparr>status = 429, data = Data None,
                                  headers = [''retry-after'' \<mapsto> ''30'']\<rparr>,
              ax_message = ''Request failed with status code 429''\<rparr>"

definition limited :: world where
  "limited =
     \<lparr>platform = (\<lambda>n rq. if n = 0 then Inl tooMany else Inr \<lparr>reply_data = Data (Some ''mid.1'')\<rparr>),
      timeline = [], console = [], debugLevel = False\<rparr>"

definition throttled :: world where
  "throttled = \<lparr>platform = (\<lambda>n rq. Inl tooMany), timeline = [], console = [], debugLevel = False\<rparr>"


definition idle :: world where
  "idle = \<lparr>platform = (\<lambda>n rq. Inr \<lparr>reply_data = Data (Some ''mid.out'')\<rparr>), timeline = [],
           console = [], debugLevel = False\<rparr>"

definition shop :: client where
  "shop = \<lparr>accessToken = ''token''\<rparr>"

text \<open>One conversation without messages, and two messages of its sender: \<open>sentFirst\<close>
  carries the earlier timestamp.\<close>

definition thread0 :: conversations where
  "thread0 = [''conv1'' \<mapsto> \<lparr>igAccountId = ''acct'', senderId = ''s1'', senderUsername = None,
                             messages = [], firstMessageAt = 0, lastMessageAt = 0\<rparr>]"

definition sentFirst :: message where
  "sentFirst = \<lparr>role = User, content = ''hello'', timestamp = 1000, messageId = None\<rparr>"

definition sentSecond :: message where
  "sentSecond = \<lparr>role = User, content = ''and the price?'', timestamp = 2000, messageId = None\<rparr>"

text \<open>A freshly started system with a configured secret, an event of the platform that
  carries no signature header, and the job data of that event.\<close>

definition boot :: system where
  "boot = \<lparr>env = [''APP_SECRET'' \<mapsto> ''s3cret''], stdout = [],
           webhookQueue = \<lparr>counter = 0, jobs = []\<rparr>, activityLog = [], api = idle\<rparr>"

definition unsignedEvent :: httpRequest where
  "unsignedEvent =
     \<lparr>query = Map.empty, req_headers = [''content-type'' \<mapsto> ''application/json''],
      body = Some ''{\"object\":\"instagram\",\"entry\":[{\"id\":\"17\",\"time\":1,\"messaging\":[{\"message\":{\"mid\":\"mid.1\",\"text\":\"hi\"}}]}]}''\<rparr>"

definition eventJob :: webhookJobData where
  "eventJob = \<lparr>eventType = ''messages'', payload = ''{\"mid\":\"mid.1\"}'',
               receivedAt = ''2024-01-01T00:00:00.000Z'', wj_igAccountId = Some ''17''\<rparr>"

text \<open>An engine that rejects the pattern \<^verbatim>\<open>(\<close> and otherwise searches the pattern as
  plain text.\<close>

definition strict :: "string regExpEngine" where
  "strict =
     \<lparr>compile = (\<lambda>p f. if p = ''('' then Inl (SyntaxError ''Invalid regular expression: /(/: Unterminated group'')
                        else Inr p),
      test = (\<lambda>r s. Inr (includesStr s r))\<rparr>"

text \<open>An OpenAI service whose provider is down, and a request.\<close>

definition down :: aiService where
  "down = \<lparr>provider = OpenAI, openai = Some (\<lambda>p. Inl (Error ''503 Service Unavailable'')),
           gemini = None, svc_model = ''gpt-3.5-turbo''\<rparr>"

text \<open>An OpenAI service that answers, a Gemini service whose chat cannot be started,
  and one whose chat rejects the prompt.\<close>

definition up :: aiService where
  "up = \<lparr>provider = OpenAI,
         openai = Some (\<lambda>p. Inr \<lparr>choices = [Some ''Glad you like it!''], total_tokens = Some 42\<rparr>),
         gemini = None, svc_model = ''gpt-3.5-turbo''\<rparr>"

definition geminiDown :: aiService where
  "geminiDown = \<lparr>provider = Gemini, openai = None,
                 gemini = Some (\<lambda>p. Inl (Error ''API key not valid'')), svc_model = ''gemini-pro''\<rparr>"

definition geminiBlocked :: aiService where
  "geminiBlocked = \<lparr>provider = Gemini, openai = None,
                    gemini = Some (\<lambda>p. Inr (\<lambda>prompt. Inl (Error ''Response was blocked''))),
                    svc_model = ''gemini-pro''\<rparr>"

definition ask :: aiGenerateRequest where
  "ask = \<lparr>conversationHistory = [\<lparr>ai_role = UserRole, ai_content = ''I love it, thanks''\<rparr>],
          businessContext = ''A bakery'', tone = Friendly, customInstructions = None,
          maxTokens = None, temperature = None\<rparr>"

text \<open>A stand-in for the crypto module that meets \<open>nodeCrypto\<close>: the key bytes count
  up from the lengths of the password and the salt, the cipher adds the first key byte to
  every byte, and the tag is the end of the key. The entropy source \<open>counting\<close> is fixed.\<close>

definition toyCrypto :: cryptoLib where
  "toyCrypto =
     \<lparr>pbkdf2Sync = (\<lambda>password salt iterations keylen digest.
         map (\<lambda>i. of_nat (i + length password + length salt)) [0..<keylen]),
      cipher = (\<lambda>key iv plain.
         if length key = 32 then Inr (map (\<lambda>b. b + hd key) plain, take 16 (rev key))
         else Inl (Error ''Invalid key length'')),
      decipher = (\<lambda>key iv tag encrypted.
         if length key \<noteq> 32 then Inl (Error ''Invalid key length'')
         else if tag = take 16 (rev key) then Inr (map (\<lambda>b. b - hd key) encrypted)
         else Inl (Error ''Unsupported state or unable to authenticate data''))\<rparr>"

definition counting :: entropy where
  "counting = (\<lambda>i. of_nat (7 * i + 3))"

section \<open>Properties\<close>

subsection \<open>Event intake\<close>

text \<open>
  C1, as the claim states it, is false. The spec asks that \<open>N\<close> deliveries of one event
  end in exactly one outbound send or one activity record, and that the later deliveries
  change nothing. Two deliveries of \<open>unsignedEvent\<close> to a fresh system are both answered
  200 and leave no outbound send, no activity record and no queued job, while each writes
  a line to the standard output; and queueing the same job data twice stores two jobs.
\<close>

theorem redelivery_not_idempotent:
  "fst (deliver 2 unsignedEvent boot) = [Inr 200, Inr 200]
   \<and> requests (api (snd (deliver 2 unsignedEvent boot))) = []
   \<and> activityLog (snd (deliver 2 unsignedEvent boot)) = []
   \<and> jobs (webhookQueue (snd (deliver 2 unsignedEvent boot))) = []
   \<and> length (stdout (snd (deliver 2 unsignedEvent boot))) = 2
   \<and> length (jobs (webhookQueue (queueTimes 2 eventJob boot))) = 2"
  by (simp add: numeral_2_eq_2 postWebhook_def unsignedEvent_def boot_def idle_def requests_def
      queueWebhookEvent_def add_def Let_def)

lemma queueTimes_jobs:
  "map job_data (jobs (webhookQueue (queueTimes n d s))) =
     map job_data (jobs (webhookQueue s)) @ replicate n d"
proof (induction n arbitrary: s)
  case 0
  then show ?case by simp
next
  case (Suc n)
  show ?case
    by (simp add: Suc.IH queueWebhookEvent_def add_def Let_def replicate_app_Cons_same)
qed

lemma deliver_logs_only:
  "body req = Some b \<Longrightarrow>
   deliver n req s =
     (replicate n (Inr 200), s\<lparr>stdout := stdout s @ replicate n (''webhook event '' @ take 200 b)\<rparr>)"
proof (induction n arbitrary: s)
  case 0
  then show ?case by simp
next
  case (Suc n)
  show ?case
    using Suc.prems Suc.IH [OF Suc.prems, of "s\<lparr>stdout := stdout s @ [''webhook event '' @ take 200 b]\<rparr>"]
    by (simp add: postWebhook_def replicate_app_Cons_same)
qed

text \<open>
  C1, amended: an event with a parsed body that is delivered \<open>n\<close> times to
  \<^verbatim>\<open>POST /webhook\<close> is answered 200 every time, and all that the deliveries change is the
  standard output, one line per delivery: no job is queued, nothing is sent and no
  activity is recorded, for the first delivery as for the later ones. The queue helper
  does not deduplicate: \<open>n\<close> calls with the same data add \<open>n\<close> jobs.
\<close>

theorem redelivery_logs_and_queues_every_time:
  "(body req = Some b \<longrightarrow>
      deliver n req s =
        (replicate n (Inr 200), s\<lparr>stdout := stdout s @ replicate n (''webhook event '' @ take 200 b)\<rparr>))
   \<and> map job_data (jobs (webhookQueue (queueTimes n d s))) =
       map job_data (jobs (webhookQueue s)) @ replicate n d"
  using deliver_logs_only [of req b n s] queueTimes_jobs [of n d s] by simp

theorem redelivery_logs_and_queues_every_time_witness:
  "body unsignedEvent \<noteq> None
   \<and> fst (deliver 3 unsignedEvent boot) = [Inr 200, Inr 200, Inr 200]
   \<and> api (snd (deliver 3 unsignedEvent boot)) = idle
   \<and> activityLog (snd (deliver 3 unsignedEvent boot)) = []
   \<and> webhookQueue (snd (deliver 3 unsignedEvent boot)) = \<lparr>counter = 0, jobs = []\<rparr>
   \<and> map job_data (jobs (webhookQueue (queueTimes 3 eventJob boot))) = [eventJob, eventJob, eventJob]"
  using redelivery_logs_and_queues_every_time [of unsignedEvent "the (body unsignedEvent)" 3 boot eventJob]
  by (simp add: unsignedEvent_def boot_def numeral_3_eq_3)

text \<open>
  C2, as the claim states it, is false: the handler answers 200 to an event that carries
  no \<^verbatim>\<open>X-Hub-Signature-256\<close> header, to the same event when no secret is configured, and
  to one whose signature header is not a signature of the body; the claim asks for 403 in
  each case.
\<close>

theorem unsigned_event_accepted:
  "req_headers unsignedEvent ''x-hub-signature-256'' = None
   \<and> fst (postWebhook unsignedEvent boot) = Inr 200
   \<and> fst (postWebhook unsignedEvent (boot\<lparr>env := Map.empty\<rparr>)) = Inr 200
   \<and> fst (postWebhook (unsignedEvent\<lparr>req_headers := [''x-hub-signature-256'' \<mapsto> ''sha256=00'']\<rparr>) boot) = Inr 200"
  by (simp add: postWebhook_def unsignedEvent_def)

text \<open>
  C2, amended: for every \<^verbatim>\<open>POST /webhook\<close> request with a parsed body the handler
  responds 200, whatever the request's headers (a valid, a wrong or no signature header)
  and whatever the environment (a secret, an empty one or none), and it creates no
  queue entry.
\<close>

theorem postWebhook_always_200:
  "body req = Some b \<Longrightarrow>
     fst (postWebhook (req\<lparr>req_headers := h\<rparr>) (s\<lparr>env := e\<rparr>)) = Inr 200
   \<and> webhookQueue (snd (postWebhook (req\<lparr>req_headers := h\<rparr>) (s\<lparr>env := e\<rparr>))) = webhookQueue s"
  by (simp add: postWebhook_def)

theorem postWebhook_always_200_witness:
  "body unsignedEvent \<noteq> None
   \<and> fst (postWebhook (unsignedEvent\<lparr>req_headers := Map.empty\<rparr>) (boot\<lparr>env := Map.empty\<rparr>)) = Inr 200
   \<and> webhookQueue (snd (postWebhook (unsignedEvent\<lparr>req_headers := Map.empty\<rparr>) (boot\<lparr>env := Map.empty\<rparr>)))
       = \<lparr>counter = 0, jobs = []\<rparr>"
  using postWebhook_always_200 [where req = unsignedEvent and b = "the (body unsignedEvent)"
      and h = Map.empty and s = boot and e = Map.empty]
  by (simp add: unsignedEvent_def boot_def)

subsection \<open>Conversations\<close>

text \<open>
  C3, as the claim states it, is false. When the message with the later timestamp is
  appended first and the two appends do not overlap, the stored list keeps it first: the
  list is in arrival order and not in timestamp order. When the two appends overlap,
  both reading before either writes, the message of the append that writes first is not
  in the stored list at all.
\<close>

theorem arrival_order_not_timestamp_order:
  "snd (interleave [(''conv1'', sentSecond), (''conv1'', sentFirst)] [0, 0, 1, 1] (pending thread0)) =
     [''conv1'' \<mapsto> \<lparr>igAccountId = ''acct'', senderId = ''s1'', senderUsername = None,
            messages = [sentSecond, sentFirst], firstMessageAt = 0, lastMessageAt = 1000\<rparr>]
   \<and> \<not> inTimestampOrder [sentSecond, sentFirst]
   \<and> snd (interleave [(''conv1'', sentSecond), (''conv1'', sentFirst)] [0, 1, 0, 1] (pending thread0)) =
     [''conv1'' \<mapsto> \<lparr>igAccountId = ''acct'', senderId = ''s1'', senderUsername = None,
            messages = [sentFirst], firstMessageAt = 0, lastMessageAt = 1000\<rparr>]"
  by (simp add: pending_def resume_def addMessageToConversation_def findUnique_def
      update_def thread0_def sentSecond_def sentFirst_def inTimestampOrder_def Let_def)

lemma interleave_append:
  "interleave calls (xs @ ys) s = interleave calls ys (interleave calls xs s)"
  by (induction xs arbitrary: s) simp_all

lemma oneByOne_Suc: "oneByOne (Suc n) = oneByOne n @ [n, n]"
  by (simp add: oneByOne_def)

text \<open>A call whose two operations run with nothing between them appends its message to
  the list that is stored at that moment.\<close>

lemma append_alone:
  assumes "k < length calls" and "calls ! k = (cid, m)" and "st k = Called" and "db cid = Some c"
  shows "interleave calls [k, k] (st, db) =
           (st(k := Settled (Inr (c\<lparr>messages := messages c @ [m], lastMessageAt := timestamp m\<rparr>))),
            db(cid \<mapsto> c\<lparr>messages := messages c @ [m], lastMessageAt := timestamp m\<rparr>))"
  using assms
  by (simp add: resume_def addMessageToConversation_def findUnique_def update_def Let_def)

lemma oneByOne_appends:
  assumes "db cid = Some c" and "n \<le> length ms"
  shows "\<exists>st. interleave (map (Pair cid) ms) (oneByOne n) (pending db) =
           (st, db(cid \<mapsto> c\<lparr>messages := messages c @ take n ms,
                               lastMessageAt := (if n = 0 then lastMessageAt c
                                                 else timestamp (ms ! (n - 1)))\<rparr>))
         \<and> (\<forall>k\<ge>n. st k = Called)"
  using assms(2)
proof (induction n)
  case 0
  show ?case using assms(1) by (simp add: oneByOne_def pending_def fun_upd_idem)
next
  case (Suc n)
  let ?calls = "map (Pair cid) ms"
  let ?c = "c\<lparr>messages := messages c @ take n ms,
                lastMessageAt := (if n = 0 then lastMessageAt c else timestamp (ms ! (n - 1)))\<rparr>"
  have "n \<le> length ms"
    using Suc.prems by simp
  from Suc.IH [OF this] obtain st where
      run: "interleave ?calls (oneByOne n) (pending db) = (st, db(cid \<mapsto> ?c))"
      and rest: "\<forall>k\<ge>n. st k = Called"
    by blast
  have n: "n < length ?calls" and arg: "?calls ! n = (cid, ms ! n)"
    using Suc.prems by simp_all
  have "interleave ?calls (oneByOne (Suc n)) (pending db) =
          interleave ?calls [n, n] (st, db(cid \<mapsto> ?c))"
    by (simp only: oneByOne_Suc interleave_append run)
  also have "\<dots> =
      (st(n := Settled (Inr (?c\<lparr>messages := messages ?c @ [ms ! n], lastMessageAt := timestamp (ms ! n)\<rparr>))),
       (db(cid \<mapsto> ?c))(cid \<mapsto> ?c\<lparr>messages := messages ?c @ [ms ! n], lastMessageAt := timestamp (ms ! n)\<rparr>))"
    using rest by (intro append_alone [OF n arg]) simp_all
  finally have
    "interleave ?calls (oneByOne (Suc n)) (pending db) =
       (st(n := Settled (Inr (?c\<lparr>messages := messages ?c @ [ms ! n], lastMessageAt := timestamp (ms ! n)\<rparr>))),
        db(cid \<mapsto> c\<lparr>messages := messages c @ take (Suc n) ms,
                        lastMessageAt := (if Suc n = 0 then lastMessageAt c
                                          else timestamp (ms ! (Suc n - 1)))\<rparr>))"
    using Suc.prems by (simp add: take_Suc_conv_app_nth)
  moreover have "\<forall>k\<ge>Suc n. (st(n := Settled (Inr (?c\<lparr>messages := messages ?c @ [ms ! n],
      lastMessageAt := timestamp (ms ! n)\<rparr>)))) k = Called"
    using rest by simp
  ultimately show ?case by blast
qed

lemma oneByOne_all:
  assumes "db cid = Some c"
  shows "snd (interleave (map (Pair cid) ms) (oneByOne (length ms)) (pending db)) =
           db(cid \<mapsto> c\<lparr>messages := messages c @ ms,
                           lastMessageAt := (if ms = [] then lastMessageAt c else timestamp (last ms))\<rparr>)"
proof -
  from assms oneByOne_appends [where db = db and cid = cid and c = c and n = "length ms" and ms = ms]
  obtain st where "interleave (map (Pair cid) ms) (oneByOne (length ms)) (pending db) =
      (st, db(cid \<mapsto> c\<lparr>messages := messages c @ take (length ms) ms,
                          lastMessageAt := (if length ms = 0 then lastMessageAt c
                                            else timestamp (ms ! (length ms - 1)))\<rparr>))"
    by auto
  then show ?thesis by (cases "ms = []") (simp_all add: last_conv_nth)
qed

text \<open>Two calls on the same row that both read before either writes: each writes the
  list it read with its own message, both return a row, and the row that stays is the one
  written last.\<close>

lemma overlapping_pair:
  assumes "db cid = Some c"
  shows "snd (interleave [(cid, a), (cid, b)] [0, 1, 0, 1] (pending db)) =
           db(cid \<mapsto> c\<lparr>messages := messages c @ [b], lastMessageAt := timestamp b\<rparr>)"
    and "snd (interleave [(cid, a), (cid, b)] [1, 0, 0, 1] (pending db)) =
           db(cid \<mapsto> c\<lparr>messages := messages c @ [b], lastMessageAt := timestamp b\<rparr>)"
    and "snd (interleave [(cid, a), (cid, b)] [0, 1, 1, 0] (pending db)) =
           db(cid \<mapsto> c\<lparr>messages := messages c @ [a], lastMessageAt := timestamp a\<rparr>)"
    and "snd (interleave [(cid, a), (cid, b)] [1, 0, 1, 0] (pending db)) =
           db(cid \<mapsto> c\<lparr>messages := messages c @ [a], lastMessageAt := timestamp a\<rparr>)"
    and "sch \<in> {[0, 1, 0, 1], [1, 0, 0, 1], [0, 1, 1, 0], [1, 0, 1, 0]} \<Longrightarrow>
         fst (interleave [(cid, a), (cid, b)] sch (pending db)) 0 =
           Settled (Inr (c\<lparr>messages := messages c @ [a], lastMessageAt := timestamp a\<rparr>))
         \<and> fst (interleave [(cid, a), (cid, b)] sch (pending db)) 1 =
           Settled (Inr (c\<lparr>messages := messages c @ [b], lastMessageAt := timestamp b\<rparr>))"
  using assms
  by (auto simp add: pending_def resume_def addMessageToConversation_def findUnique_def update_def
      Let_def)

text \<open>
  C3, amended: for an existing conversation, when the appends do not overlap (each call
  has run its \<^verbatim>\<open>update\<close> before the next runs its \<^verbatim>\<open>findUnique\<close>), the stored message
  sequence after a run of appends is the sequence before it followed by the appended
  messages in the order in which the appends were performed, and \<^verbatim>\<open>lastMessageAt\<close> is the
  timestamp of the message appended last; the timestamps play no part in the order of the
  list, which is in timestamp order only if the appends came in timestamp order. When
  two appends overlap (both run \<^verbatim>\<open>findUnique\<close> before either runs \<^verbatim>\<open>update\<close>), the stored
  sequence is the sequence before them followed by the message of the call whose
  \<^verbatim>\<open>update\<close> ran last, and the other message is lost, whatever the timestamps are and
  although both calls return a row.
\<close>

theorem messages_in_arrival_order:
  "db cid = Some c \<Longrightarrow>
   snd (interleave (map (Pair cid) ms) (oneByOne (length ms)) (pending db)) =
     db(cid \<mapsto> c\<lparr>messages := messages c @ ms,
                     lastMessageAt := (if ms = [] then lastMessageAt c else timestamp (last ms))\<rparr>)
   \<and> (inTimestampOrder (messages c @ ms) \<longrightarrow> inTimestampOrder ms)
   \<and> snd (interleave [(cid, a), (cid, b)] [1, 1, 0, 0] (pending db)) =
       db(cid \<mapsto> c\<lparr>messages := messages c @ [b, a], lastMessageAt := timestamp a\<rparr>)
   \<and> (\<forall>sch \<in> {[0, 1, 0, 1], [1, 0, 0, 1]}.
         snd (interleave [(cid, a), (cid, b)] sch (pending db)) =
           db(cid \<mapsto> c\<lparr>messages := messages c @ [b], lastMessageAt := timestamp b\<rparr>)
         \<and> (\<exists>r. fst (interleave [(cid, a), (cid, b)] sch (pending db)) 0 = Settled (Inr r)))
   \<and> (\<forall>sch \<in> {[0, 1, 1, 0], [1, 0, 1, 0]}.
         snd (interleave [(cid, a), (cid, b)] sch (pending db)) =
           db(cid \<mapsto> c\<lparr>messages := messages c @ [a], lastMessageAt := timestamp a\<rparr>)
         \<and> (\<exists>r. fst (interleave [(cid, a), (cid, b)] sch (pending db)) 1 = Settled (Inr r)))"
proof (intro conjI ballI)
  assume row: "db cid = Some c"
  show "snd (interleave (map (Pair cid) ms) (oneByOne (length ms)) (pending db)) =
     db(cid \<mapsto> c\<lparr>messages := messages c @ ms,
                     lastMessageAt := (if ms = [] then lastMessageAt c else timestamp (last ms))\<rparr>)"
    using row by (rule oneByOne_all [where db = db and cid = cid])
  show "inTimestampOrder (messages c @ ms) \<longrightarrow> inTimestampOrder ms"
    by (simp add: inTimestampOrder_def sorted_append)
  show "snd (interleave [(cid, a), (cid, b)] [1, 1, 0, 0] (pending db)) =
       db(cid \<mapsto> c\<lparr>messages := messages c @ [b, a], lastMessageAt := timestamp a\<rparr>)"
    using row
    by (simp add: pending_def resume_def addMessageToConversation_def findUnique_def update_def
        Let_def)
  {
    fix sch :: "nat list"
    assume sch: "sch \<in> {[0, 1, 0, 1], [1, 0, 0, 1]}"
    then have "sch = [0, 1, 0, 1] \<or> sch = [1, 0, 0, 1]"
      by simp
    then show "snd (interleave [(cid, a), (cid, b)] sch (pending db)) =
           db(cid \<mapsto> c\<lparr>messages := messages c @ [b], lastMessageAt := timestamp b\<rparr>)"
      using overlapping_pair(1,2) [where db = db and cid = cid and c = c and a = a and b = b] row
      by (elim disjE) simp_all
    from sch have "sch \<in> {[0, 1, 0, 1], [1, 0, 0, 1], [0, 1, 1, 0], [1, 0, 1, 0]}"
      by blast
    with row overlapping_pair(5) [where db = db and cid = cid and c = c and a = a and b = b and sch = sch]
    show "\<exists>r. fst (interleave [(cid, a), (cid, b)] sch (pending db)) 0 = Settled (Inr r)"
      by blast
  }
  {
    fix sch :: "nat list"
    assume sch: "sch \<in> {[0, 1, 1, 0], [1, 0, 1, 0]}"
    then have "sch = [0, 1, 1, 0] \<or> sch = [1, 0, 1, 0]"
      by simp
    then show "snd (interleave [(cid, a), (cid, b)] sch (pending db)) =
           db(cid \<mapsto> c\<lparr>messages := messages c @ [a], lastMessageAt := timestamp a\<rparr>)"
      using overlapping_pair(3,4) [where db = db and cid = cid and c = c and a = a and b = b] row
      by (elim disjE) simp_all
    from sch have "sch \<in> {[0, 1, 0, 1], [1, 0, 0, 1], [0, 1, 1, 0], [1, 0, 1, 0]}"
      by blast
    with row overlapping_pair(5) [where db = db and cid = cid and c = c and a = a and b = b and sch = sch]
    show "\<exists>r. fst (interleave [(cid, a), (cid, b)] sch (pending db)) 1 = Settled (Inr r)"
      by blast
  }
qed

theorem messages_in_arrival_order_witness:
  "thread0 ''conv1'' \<noteq> None
   \<and> map_option messages
        (snd (interleave [(''conv1'', sentSecond), (''conv1'', sentFirst)] (oneByOne 2) (pending thread0)) ''conv1'')
       = Some [sentSecond, sentFirst]
   \<and> map_option messages
        (snd (interleave [(''conv1'', sentFirst), (''conv1'', sentSecond)] [1, 1, 0, 0] (pending thread0)) ''conv1'')
       = Some [sentSecond, sentFirst]
   \<and> map_option messages
        (snd (interleave [(''conv1'', sentFirst), (''conv1'', sentSecond)] [0, 1, 0, 1] (pending thread0)) ''conv1'')
       = Some [sentSecond]
   \<and> map_option messages
        (snd (interleave [(''conv1'', sentFirst), (''conv1'', sentSecond)] [1, 0, 1, 0] (pending thread0)) ''conv1'')
       = Some [sentFirst]
   \<and> inTimestampOrder (messages (the (thread0 ''conv1'')) @ [sentFirst, sentSecond])
   \<and> inTimestampOrder [sentFirst, sentSecond]"
proof -
  let ?row = "the (thread0 ''conv1'')"
  have row: "thread0 ''conv1'' = Some ?row" and none: "messages ?row = []"
    by (simp_all add: thread0_def)
  note swapped = messages_in_arrival_order [where db = thread0 and cid = "''conv1''" and c = ?row
      and ms = "[sentSecond, sentFirst]" and a = sentFirst and b = sentSecond, OF row]
  note inOrder = messages_in_arrival_order [where db = thread0 and cid = "''conv1''" and c = ?row
      and ms = "[sentFirst, sentSecond]" and a = sentFirst and b = sentSecond, OF row]
  have sorted: "inTimestampOrder (messages ?row @ [sentFirst, sentSecond])"
    by (simp add: none inTimestampOrder_def sentFirst_def sentSecond_def)
  with inOrder have "inTimestampOrder [sentFirst, sentSecond]"
    by blast
  moreover from swapped [THEN conjunct1] have "map_option messages
        (snd (interleave [(''conv1'', sentSecond), (''conv1'', sentFirst)] (oneByOne 2) (pending thread0)) ''conv1'')
       = Some [sentSecond, sentFirst]"
    by (simp add: none numeral_2_eq_2)
  moreover from swapped [THEN conjunct2, THEN conjunct2, THEN conjunct1] have "map_option messages
        (snd (interleave [(''conv1'', sentFirst), (''conv1'', sentSecond)] [1, 1, 0, 0] (pending thread0)) ''conv1'')
       = Some [sentSecond, sentFirst]"
    by (simp add: none)
  moreover from swapped [THEN conjunct2, THEN conjunct2, THEN conjunct2, THEN conjunct1,
      THEN bspec, of "[0, 1, 0, 1]"] have "map_option messages
        (snd (interleave [(''conv1'', sentFirst), (''conv1'', sentSecond)] [0, 1, 0, 1] (pending thread0)) ''conv1'')
       = Some [sentSecond]"
    by (simp add: none)
  moreover from swapped [THEN conjunct2, THEN conjunct2, THEN conjunct2, THEN conjunct2,
      THEN bspec, of "[1, 0, 1, 0]"] have "map_option messages
        (snd (interleave [(''conv1'', sentFirst), (''conv1'', sentSecond)] [1, 0, 1, 0] (pending thread0)) ''conv1'')
       = Some [sentFirst]"
    by (simp add: none)
  moreover have "thread0 ''conv1'' \<noteq> None"
    by (simp add: thread0_def)
  ultimately show ?thesis
    using sorted by (intro conjI) assumption+
qed

subsection \<open>Outbound sender\<close>

lemma posted_append: "posted (xs @ ys) = posted xs @ posted ys"
  by (induction xs rule: posted.induct) simp_all

lemma sleeps_append: "sleeps (xs @ ys) = sleeps xs @ sleeps ys"
  by (induction xs rule: sleeps.induct) simp_all

text \<open>One attempt: the POST is put on the timeline, the platform's answer to it is the
  answer to the POST of that number, and a failure is thrown as \<^verbatim>\<open>handleAPIError\<close>
  makes it.\<close>

lemma post_result:
  "fst (post rq w) = map_sum handleAPIError id (platform w (length (requests w)) rq)"
  by (simp add: post_def Let_def split: sum.splits)

lemma post_world:
  "timeline (snd (post rq w)) = timeline w @ [Post rq]"
  "platform (snd (post rq w)) = platform w"
  "requests (snd (post rq w)) = requests w @ [rq]"
  by (simp_all add: post_def Let_def logger_def requests_def posted_append split: sum.splits)

lemma sleep_world:
  "timeline (sleep ms w) = timeline w @ [Sleep ms]"
  "platform (sleep ms w) = platform w"
  "requests (sleep ms w) = requests w"
  by (simp_all add: sleep_def requests_def posted_append)

text \<open>What \<^verbatim>\<open>sendMessage\<close> puts on the timeline, by the number of attempts that fail: the
  POSTs, and between a failed POST and the next one sleep of the backoff schedule. No
  case looks at what an attempt failed with.\<close>

lemma sendMessage_first_succeeds:
  assumes "platform w (length (requests w)) (messageRequest c rid msg pid) = Inr r"
  shows "timeline (snd (sendMessage c rid msg pid w)) = timeline w @ [Post (messageRequest c rid msg pid)]"
  using assms
  by (cases "reply_data r")
     (simp_all add: sendMessage_def retryWithBackoff_def post_def Let_def logger_def)

lemma sendMessage_second_succeeds:
  assumes "platform w (length (requests w)) (messageRequest c rid msg pid) = Inl ea"
      and "platform w (Suc (length (requests w))) (messageRequest c rid msg pid) = Inr r"
  shows "timeline (snd (sendMessage c rid msg pid w)) =
           timeline w @ [Post (messageRequest c rid msg pid), Sleep 1000, Post (messageRequest c rid msg pid)]"
  using assms
  by (cases "reply_data r")
     (simp_all add: sendMessage_def retryWithBackoff_def post_def Let_def logger_def sleep_def
        requests_def posted_append)

lemma sendMessage_two_fail:
  assumes "platform w (length (requests w)) (messageRequest c rid msg pid) = Inl ea"
      and "platform w (Suc (length (requests w))) (messageRequest c rid msg pid) = Inl eb"
  shows "timeline (snd (sendMessage c rid msg pid w)) =
           timeline w @ [Post (messageRequest c rid msg pid), Sleep 1000,
                         Post (messageRequest c rid msg pid), Sleep 2000,
                         Post (messageRequest c rid msg pid)]"
proof (cases "platform w (Suc (Suc (length (requests w)))) (messageRequest c rid msg pid)")
  case (Inl ec)
  with assms show ?thesis
    by (simp add: sendMessage_def retryWithBackoff_def post_def Let_def logger_def sleep_def
        requests_def posted_append numeral_3_eq_3)
next
  case (Inr r)
  with assms show ?thesis
    by (cases "reply_data r")
       (simp_all add: sendMessage_def retryWithBackoff_def post_def Let_def logger_def sleep_def
          requests_def posted_append numeral_3_eq_3)
qed




text \<open>A reply whose body is \<^verbatim>\<open>null\<close> has no \<^verbatim>\<open>message_id\<close> to return: reading it throws,
  inside the \<^verbatim>\<open>try\<close>, after the POST was accepted, and no further POST is made.\<close>

lemma sendMessage_reply_without_body:
  assumes "platform w (length (requests w)) (messageRequest c rid msg pid) = Inr \<lparr>reply_data = NullData\<rparr>"
  shows "fst (sendMessage c rid msg pid w)
           = Inl (TypeError ''Cannot read properties of null (reading 'message_id')'')"
    and "timeline (snd (sendMessage c rid msg pid w)) = timeline w @ [Post (messageRequest c rid msg pid)]"
  using assms
  by (simp_all add: sendMessage_def retryWithBackoff_def post_def Let_def logger_def)

text \<open>The sleeps of \<^verbatim>\<open>retryWithBackoff\<close>, for every action that does not sleep itself, every
  ceiling and every base delay: a run of the schedule \<open>baseDelay * 2 ^ j\<close> from \<open>j = 0\<close>.
  How long the run is depends on how many attempts failed, and nothing in it on what they
  failed with.\<close>

lemma retryLoop_sleeps:
  "\<forall>v. slept (snd (fn v)) = slept v \<Longrightarrow>
   \<exists>k. slept (snd (retryLoop fn maxRetries baseDelay i lastError w)) =
         slept w @ map (\<lambda>j. baseDelay * 2 ^ j) [i..<i + k]"
proof (induction fn maxRetries baseDelay i lastError w rule: retryLoop.induct)
  case (1 fn maxRetries baseDelay i lastError w)
  note frame = "1.prems"
  show ?case
  proof (cases "int i < maxRetries")
    case False
    then have "retryLoop fn maxRetries baseDelay i lastError w =
        (Inl (case lastError of None \<Rightarrow> Undefined | Some e \<Rightarrow> e), w)"
      by (subst retryLoop.simps) simp
    then show ?thesis by (intro exI [of _ 0]) simp
  next
    case True
    obtain r w' where f: "fn w = (r, w')" by (cases "fn w")
    have s: "slept w' = slept w" using frame [rule_format, of w] f by simp
    show ?thesis
    proof (cases r)
      case (Inr v)
      then have "retryLoop fn maxRetries baseDelay i lastError w = (Inr v, w')"
        using True f by (subst retryLoop.simps) simp
      then show ?thesis using s by (intro exI [of _ 0]) simp
    next
      case (Inl e)
      show ?thesis
      proof (cases "int i < maxRetries - 1")
        case last: False
        then have "\<not> int (i + 1) < maxRetries" by simp
        then have "retryLoop fn maxRetries baseDelay (i + 1) (Some e) w' = (Inl e, w')"
          by (subst retryLoop.simps) simp
        then have "retryLoop fn maxRetries baseDelay i lastError w = (Inl e, w')"
          using True f Inl last by (subst retryLoop.simps) simp
        then show ?thesis using s by (intro exI [of _ 0]) simp
      next
        case more: True
        let ?w = "sleep (baseDelay * 2 ^ i) w'"
        have step: "retryLoop fn maxRetries baseDelay i lastError w =
            retryLoop fn maxRetries baseDelay (i + 1) (Some e) ?w"
          using True f Inl more by (subst retryLoop.simps) simp
        from "1.IH" [OF True f [symmetric] Inl frame] more
        obtain k where "slept (snd (retryLoop fn maxRetries baseDelay (i + 1) (Some e) ?w)) =
            slept ?w @ map (\<lambda>j. baseDelay * 2 ^ j) [i + 1..<i + 1 + k]"
          by auto
        then have "slept (snd (retryLoop fn maxRetries baseDelay i lastError w)) =
            slept w @ map (\<lambda>j. baseDelay * 2 ^ j) [i..<i + (k + 1)]"
          using step s by (simp add: sleep_def slept_def sleeps_append upt_conv_Cons)
        then show ?thesis by blast
      qed
    qed
  qed
qed

lemma retryWithBackoff_sleeps:
  "\<forall>v. slept (snd (fn v)) = slept v \<Longrightarrow>
   \<exists>k. slept (snd (retryWithBackoff fn maxRetries baseDelay w)) =
         slept w @ map (\<lambda>j. baseDelay * 2 ^ j) [0..<k]"
  using retryLoop_sleeps [of fn maxRetries baseDelay 0 None w]
  by (simp add: retryWithBackoff_def)

text \<open>
  C4, as the claim states it, is false: the first attempt fails with a
  \<^verbatim>\<open>RateLimitError\<close> whose retry-after is 30 (seconds), and what the sender does between
  that attempt and the next is one sleep of 1000 ms, which is less than 30 s.
\<close>

theorem retry_after_not_awaited:
  "fst (post (messageRequest shop ''user1'' ''hello'' ''page9'') limited)
     = Inl (RateLimitError ''Instagram API rate limit exceeded. Retry after 30s'' (Finite 30))
   \<and> timeline (snd (sendMessage shop ''user1'' ''hello'' ''page9'' limited))
     = [Post (messageRequest shop ''user1'' ''hello'' ''page9''), Sleep 1000,
        Post (messageRequest shop ''user1'' ''hello'' ''page9'')]
   \<and> (1000 :: int) < 30 * 1000"
  by code_simp

text \<open>
  C4, amended. Whenever an attempt of \<^verbatim>\<open>sendMessage\<close> fails with a \<^verbatim>\<open>RateLimitError\<close>
  carrying a retry-after value \<open>d\<close> and the ceiling of three attempts is not exhausted,
  the sender sleeps the delay of the backoff schedule and then makes the next attempt,
  whatever \<open>d\<close> is: after a first attempt that failed so, the timeline goes on with that
  POST, a sleep of 1000 ms and the second POST; after a second attempt that failed so,
  with the two POSTs, the sleep of 1000 ms between them, a sleep of 2000 ms and the third
  POST. The value \<open>d\<close> is stored in the error and is not a wait: for a response with
  status 429, or with error code 4, it is what \<^verbatim>\<open>parseInt\<close> reads from the
  \<^verbatim>\<open>retry-after\<close> header, or from \<^verbatim>\<open>'60'\<close> when the header is missing or empty.
\<close>

theorem sendMessage_waits_backoff_only:
  "(\<forall>e reason d. platform w (length (requests w)) (messageRequest c rid msg pid) = Inl e
        \<and> handleAPIError e = RateLimitError reason d \<longrightarrow>
      fst (post (messageRequest c rid msg pid) w) = Inl (RateLimitError reason d)
      \<and> (\<exists>rest. timeline (snd (sendMessage c rid msg pid w)) =
            timeline w @ [Post (messageRequest c rid msg pid), Sleep 1000,
                          Post (messageRequest c rid msg pid)] @ rest))
   \<and> (\<forall>ea e reason d. platform w (length (requests w)) (messageRequest c rid msg pid) = Inl ea
        \<and> platform w (Suc (length (requests w))) (messageRequest c rid msg pid) = Inl e
        \<and> handleAPIError e = RateLimitError reason d \<longrightarrow>
      fst (post (messageRequest c rid msg pid)
             (sleep 1000 (snd (post (messageRequest c rid msg pid) w)))) = Inl (RateLimitError reason d)
      \<and> timeline (snd (sendMessage c rid msg pid w)) =
          timeline w @ [Post (messageRequest c rid msg pid), Sleep 1000,
                        Post (messageRequest c rid msg pid), Sleep 2000,
                        Post (messageRequest c rid msg pid)])
   \<and> (\<forall>r apiError. response err = Some r \<and> data r = Data apiError
        \<and> (status r = 429 \<or> map_option ge_code apiError = Some 4) \<longrightarrow>
      handleAPIError err =
        RateLimitError
          (''Instagram API rate limit exceeded. Retry after ''
             @ numberToString (parseInt (orElse (headers r ''retry-after'') ''60'')) @ ''s'')
          (parseInt (orElse (headers r ''retry-after'') ''60'')))"
proof (intro conjI allI impI)
  fix e reason d
  assume a: "platform w (length (requests w)) (messageRequest c rid msg pid) = Inl e
        \<and> handleAPIError e = RateLimitError reason d"
  then show "fst (post (messageRequest c rid msg pid) w) = Inl (RateLimitError reason d)"
    by (simp add: post_result)
  show "\<exists>rest. timeline (snd (sendMessage c rid msg pid w)) =
            timeline w @ [Post (messageRequest c rid msg pid), Sleep 1000,
                          Post (messageRequest c rid msg pid)] @ rest"
  proof (cases "platform w (Suc (length (requests w))) (messageRequest c rid msg pid)")
    case (Inl eb)
    from sendMessage_two_fail [OF conjunct1 [OF a] Inl] show ?thesis by simp
  next
    case (Inr r)
    from sendMessage_second_succeeds [OF conjunct1 [OF a] Inr] show ?thesis by simp
  qed
next
  fix ea e reason d
  assume a: "platform w (length (requests w)) (messageRequest c rid msg pid) = Inl ea
        \<and> platform w (Suc (length (requests w))) (messageRequest c rid msg pid) = Inl e
        \<and> handleAPIError e = RateLimitError reason d"
  then show "fst (post (messageRequest c rid msg pid)
             (sleep 1000 (snd (post (messageRequest c rid msg pid) w)))) = Inl (RateLimitError reason d)"
    by (simp add: post_result post_world sleep_world)
  from a sendMessage_two_fail [of w c rid msg pid ea e]
  show "timeline (snd (sendMessage c rid msg pid w)) =
          timeline w @ [Post (messageRequest c rid msg pid), Sleep 1000,
                        Post (messageRequest c rid msg pid), Sleep 2000,
                        Post (messageRequest c rid msg pid)]"
    by simp
next
  fix r apiError
  assume "response err = Some r \<and> data r = Data apiError
        \<and> (status r = 429 \<or> map_option ge_code apiError = Some 4)"
  then show "handleAPIError err =
        RateLimitError
          (''Instagram API rate limit exceeded. Retry after ''
             @ numberToString (parseInt (orElse (headers r ''retry-after'') ''60'')) @ ''s'')
          (parseInt (orElse (headers r ''retry-after'') ''60''))"
    by (auto simp add: handleAPIError_def Let_def)
qed

theorem sendMessage_waits_backoff_only_witness:
  "platform limited (length (requests limited)) (messageRequest shop ''user1'' ''hello'' ''page9'') = Inl tooMany
   \<and> fst (post (messageRequest shop ''user1'' ''hello'' ''page9'') limited)
       = Inl (RateLimitError ''Instagram API rate limit exceeded. Retry after 30s'' (Finite 30))
   \<and> timeline (snd (sendMessage shop ''user1'' ''hello'' ''page9'' limited))
       = [Post (messageRequest shop ''user1'' ''hello'' ''page9''), Sleep 1000,
          Post (messageRequest shop ''user1'' ''hello'' ''page9'')]
   \<and> platform throttled (Suc (length (requests throttled))) (messageRequest shop ''user1'' ''hello'' ''page9'')
       = Inl tooMany
   \<and> timeline (snd (sendMessage shop ''user1'' ''hello'' ''page9'' throttled))
       = [Post (messageRequest shop ''user1'' ''hello'' ''page9''), Sleep 1000,
          Post (messageRequest shop ''user1'' ''hello'' ''page9''), Sleep 2000,
          Post (messageRequest shop ''user1'' ''hello'' ''page9'')]
   \<and> response tooMany
       = Some \<lparr>status = 429, data = Data None, headers = [''retry-after'' \<mapsto> ''30'']\<rparr>
   \<and> handleAPIError tooMany
       = RateLimitError
           (''Instagram API rate limit exceeded. Retry after '' @ numberToString (parseInt ''30'') @ ''s'')
           (parseInt ''30'')
   \<and> parseInt ''30'' = Finite 30"
proof -
  let ?rq = "messageRequest shop ''user1'' ''hello'' ''page9''"
  let ?r = "\<lparr>status = 429, data = Data None, headers = [''retry-after'' \<mapsto> ''30'']\<rparr>"
  have thrown: "handleAPIError tooMany
      = RateLimitError ''Instagram API rate limit exceeded. Retry after 30s'' (Finite 30)"
    by code_simp
  have read: "parseInt ''30'' = Finite 30"
    by code_simp
  have first: "platform limited (length (requests limited)) ?rq = Inl tooMany"
    and second: "platform limited (Suc (length (requests limited))) ?rq
      = Inr \<lparr>reply_data = Data (Some ''mid.1'')\<rparr>"
    and fresh: "timeline limited = []" "timeline throttled = []"
    and answer: "response tooMany = Some ?r"
    by (simp_all add: limited_def throttled_def requests_def tooMany_def)
  have always: "platform throttled n ?rq = Inl tooMany" for n
    by (simp add: throttled_def)
  note once = sendMessage_waits_backoff_only [where w = limited and c = shop and rid = "''user1''"
      and msg = "''hello''" and pid = "''page9''" and err = tooMany]
  note twice = sendMessage_waits_backoff_only [where w = throttled and c = shop and rid = "''user1''"
      and msg = "''hello''" and pid = "''page9''" and err = tooMany]
  from once [THEN conjunct1] first thrown
  have "fst (post ?rq limited)
      = Inl (RateLimitError ''Instagram API rate limit exceeded. Retry after 30s'' (Finite 30))"
    by blast
  moreover from sendMessage_second_succeeds [OF first second]
  have "timeline (snd (sendMessage shop ''user1'' ''hello'' ''page9'' limited))
      = [Post ?rq, Sleep 1000, Post ?rq]"
    by (simp add: fresh)
  moreover from twice [THEN conjunct2, THEN conjunct1] always thrown
  have "timeline (snd (sendMessage shop ''user1'' ''hello'' ''page9'' throttled))
      = timeline throttled @ [Post ?rq, Sleep 1000, Post ?rq, Sleep 2000, Post ?rq]"
    by blast
  then have "timeline (snd (sendMessage shop ''user1'' ''hello'' ''page9'' throttled))
      = [Post ?rq, Sleep 1000, Post ?rq, Sleep 2000, Post ?rq]"
    by (simp add: fresh)
  moreover from once [THEN conjunct2, THEN conjunct2, rule_format, of ?r None] answer
  have "handleAPIError tooMany
       = RateLimitError
           (''Instagram API rate limit exceeded. Retry after '' @ numberToString (parseInt ''30'') @ ''s'')
           (parseInt ''30'')"
    by (simp add: orElse_def)
  ultimately show ?thesis
    using first always [of "Suc (length (requests throttled))"] answer read
    by (intro conjI) assumption+
qed

subsection \<open>AI service\<close>

text \<open>
  C6: \<^verbatim>\<open>generateResponse\<close> raises the provider's error when the OpenAI call fails, when
  the Gemini chat cannot be started and when the Gemini chat fails on the prompt; a reply
  it returns carries the text the provider returned, never a text of its own; and the
  keyword heuristic \<^verbatim>\<open>simpleSentimentAnalysis\<close> is what \<^verbatim>\<open>analyzeSentiment\<close> returns when
  the provider is not OpenAI.
\<close>

theorem generateResponse_propagates_provider_errors:
  "(\<forall>create e. provider svc = OpenAI \<and> openai svc = Some create \<and> create (openAIParams svc request) = Inl e
        \<longrightarrow> fst (generateResponse svc request started ended) = Inl e)
   \<and> (\<forall>startChat e. provider svc = Gemini \<and> gemini svc = Some startChat
          \<and> startChat (geminiChatParams svc request) = Inl e
        \<longrightarrow> fst (generateResponse svc request started ended) = Inl e)
   \<and> (\<forall>startChat chat e. provider svc = Gemini \<and> gemini svc = Some startChat
          \<and> startChat (geminiChatParams svc request) = Inr chat \<and> conversationHistory request \<noteq> []
          \<and> chat (geminiPrompt request) = Inl e
        \<longrightarrow> fst (generateResponse svc request started ended) = Inl e)
   \<and> (\<forall>r. fst (generateResponse svc request started ended) = Inr r \<longrightarrow>
          (\<exists>create c first rest. provider svc = OpenAI \<and> openai svc = Some create
              \<and> create (openAIParams svc request) = Inr c \<and> choices c = first # rest
              \<and> message r = orElse first [])
        \<or> (\<exists>startChat chat. provider svc = Gemini \<and> gemini svc = Some startChat
              \<and> startChat (geminiChatParams svc request) = Inr chat
              \<and> chat (geminiPrompt request) = Inr (message r)))
   \<and> (provider svc \<noteq> OpenAI \<longrightarrow> fst (analyzeSentiment svc msg) = simpleSentimentAnalysis msg)"
proof (intro conjI allI impI)
  fix create e
  assume "provider svc = OpenAI \<and> openai svc = Some create \<and> create (openAIParams svc request) = Inl e"
  then show "fst (generateResponse svc request started ended) = Inl e"
    by (simp add: generateResponse_def generateOpenAIResponse_def)
next
  fix startChat e
  assume "provider svc = Gemini \<and> gemini svc = Some startChat
          \<and> startChat (geminiChatParams svc request) = Inl e"
  then show "fst (generateResponse svc request started ended) = Inl e"
    by (simp add: generateResponse_def generateGeminiResponse_def)
next
  fix startChat chat e
  assume "provider svc = Gemini \<and> gemini svc = Some startChat
          \<and> startChat (geminiChatParams svc request) = Inr chat \<and> conversationHistory request \<noteq> []
          \<and> chat (geminiPrompt request) = Inl e"
  then show "fst (generateResponse svc request started ended) = Inl e"
    by (simp add: generateResponse_def generateGeminiResponse_def)
next
  fix r
  assume "fst (generateResponse svc request started ended) = Inr r"
  then show "(\<exists>create c first rest. provider svc = OpenAI \<and> openai svc = Some create
              \<and> create (openAIParams svc request) = Inr c \<and> choices c = first # rest
              \<and> message r = orElse first [])
        \<or> (\<exists>startChat chat. provider svc = Gemini \<and> gemini svc = Some startChat
              \<and> startChat (geminiChatParams svc request) = Inr chat
              \<and> chat (geminiPrompt request) = Inr (message r))"
    by (auto simp add: generateResponse_def generateOpenAIResponse_def generateGeminiResponse_def
        Let_def split: sum.splits option.splits if_splits list.splits)
next
  assume "provider svc \<noteq> OpenAI"
  then show "fst (analyzeSentiment svc msg) = simpleSentimentAnalysis msg"
    by (simp add: analyzeSentiment_def)
qed

theorem generateResponse_propagates_provider_errors_witness:
  "provider down = OpenAI
   \<and> map_option (\<lambda>create. create (openAIParams down ask)) (openai down)
       = Some (Inl (Error ''503 Service Unavailable''))
   \<and> fst (generateResponse down ask 0 5) = Inl (Error ''503 Service Unavailable'')
   \<and> fst (generateResponse geminiDown ask 0 5) = Inl (Error ''API key not valid'')
   \<and> fst (generateResponse geminiBlocked ask 0 5) = Inl (Error ''Response was blocked'')
   \<and> map_sum id message (fst (generateResponse up ask 0 5)) = Inr ''Glad you like it!''
   \<and> fst (analyzeSentiment geminiDown ''I love it, thanks'') = ''positive''"
proof -
  have "simpleSentimentAnalysis ''I love it, thanks'' = ''positive''"
    by code_simp
  moreover have "map_sum id message (fst (generateResponse up ask 0 5)) = Inr ''Glad you like it!''"
    by (simp add: generateResponse_def generateOpenAIResponse_def up_def orElse_def orDefault_def)
  ultimately show ?thesis
    using generateResponse_propagates_provider_errors
      [where svc = down and request = ask and started = 0 and ended = 5]
      generateResponse_propagates_provider_errors
      [where svc = geminiDown and request = ask and started = 0 and ended = 5
         and msg = "''I love it, thanks''"]
      generateResponse_propagates_provider_errors
      [where svc = geminiBlocked and request = ask and started = 0 and ended = 5]
    by (simp add: down_def geminiDown_def geminiBlocked_def ask_def)
qed

subsection \<open>Keyword matching\<close>

lemma toLowerCase_message: "toLowerCase ''I love your Pricing!'' = ''i love your pricing!''"
  by code_simp

lemma toLowerCase_keyword: "toLowerCase ''pricing'' = ''pricing''"
  by code_simp

text \<open>
  C7: \<^verbatim>\<open>matchesKeyword("I love your Pricing!", "pricing", "contains", false)\<close> returns true,
  and the same call with \<^verbatim>\<open>caseSensitive = true\<close> returns false, with any engine for
  regular expressions.
\<close>

theorem matchesKeyword_pricing:
  "matchesKeyword eng ''I love your Pricing!'' ''pricing'' ''contains'' False = Inr True
   \<and> matchesKeyword eng ''I love your Pricing!'' ''pricing'' ''contains'' True = Inr False"
  by (simp add: matchesKeyword_def toLowerCase_message toLowerCase_keyword)

text \<open>
  C8: with \<^verbatim>\<open>matchType = 'regex'\<close> the call returns a boolean and never throws, for every
  text, every pattern, every flag and every engine; and when the engine rejects the
  pattern, the result is false.
\<close>

theorem matchesKeyword_regex_total:
  "(\<exists>b. matchesKeyword eng msg pattern ''regex'' caseSensitive = Inr b)
   \<and> (\<forall>e. compile eng pattern (if caseSensitive then [] else ''i'') = Inl e \<longrightarrow>
          matchesKeyword eng msg pattern ''regex'' caseSensitive = Inr False)"
  by (auto simp add: matchesKeyword_def split: sum.splits)

theorem matchesKeyword_regex_total_witness:
  "compile strict ''('' ''i'' = Inl (SyntaxError ''Invalid regular expression: /(/: Unterminated group'')
   \<and> matchesKeyword strict ''any (text'' ''('' ''regex'' False = Inr False"
  using matchesKeyword_regex_total [of strict "''any (text''" "''(''" False]
  by (simp add: strict_def)

subsection \<open>Templates\<close>

text \<open>
  C9 holds for the two examples of the claim and fails for a placeholder that is named
  like a member of \<^verbatim>\<open>Object.prototype\<close>: the key of \<^verbatim>\<open>{{constructor}}\<close> is not supplied
  in the empty variables object, and the placeholder is not left verbatim but replaced by
  the source text of the inherited function.
\<close>

theorem replaceVariables_inherited_key:
  "replaceVariables ''Hi {{constructor}}'' Map.empty = ''Hi function Object() { [native code] }''"
  by code_simp

lemma replaceVariables_supplied: "replaceVariables ''Hi {{name}}'' [''name'' \<mapsto> ''Ana''] = ''Hi Ana''"
  by code_simp

lemma replaceVariables_unsupplied: "replaceVariables ''Hi {{name}}'' Map.empty = ''Hi {{name}}''"
  by code_simp

text \<open>What does hold for every template: when no placeholder's key is supplied or
  names a member of \<^verbatim>\<open>Object.prototype\<close>, the template comes back unchanged.\<close>

lemma startsWith_append: "startsWith s k \<Longrightarrow> s = k @ drop (length k) s"
  by (induction s k rule: startsWith.induct) auto

lemma matchPlaceholder_text:
  assumes "matchPlaceholder s = Some (key, rest)"
  shows "s = ''{{'' @ key @ ''}}'' @ rest"
proof -
  from assms have a: "startsWith s ''{{''" and k: "key = takeWhile isWordChar (drop 2 s)"
    and b: "startsWith (dropWhile isWordChar (drop 2 s)) ''}}''"
    and r: "rest = drop 2 (dropWhile isWordChar (drop 2 s))"
    by (auto simp: matchPlaceholder_def Let_def split: if_splits)
  have "s = ''{{'' @ drop 2 s"
    using startsWith_append [OF a] by (simp add: numeral_2_eq_2)
  also have "drop 2 s = key @ dropWhile isWordChar (drop 2 s)"
    by (simp add: k)
  also have "dropWhile isWordChar (drop 2 s) = ''}}'' @ rest"
    using startsWith_append [OF b] by (simp add: r numeral_2_eq_2)
  finally show ?thesis .
qed

lemma replaceVariables_verbatim:
  "\<forall>key \<in> set (placeholders template). vars key = None \<and> objectPrototype key = JsUndefined \<Longrightarrow>
   replaceVariables template vars = template"
proof (induction template vars rule: replaceVariables.induct)
  case (1 vars)
  show ?case by simp
next
  case (2 c cs vars)
  show ?case
  proof (cases "matchPlaceholder (c # cs)")
    case None
    with 2 show ?thesis by simp
  next
    case (Some m)
    obtain key rest where m: "m = (key, rest)" by (cases m)
    from "2.prems" Some m have free: "vars key = None" "objectPrototype key = JsUndefined"
      and later: "\<forall>k \<in> set (placeholders rest). vars k = None \<and> objectPrototype k = JsUndefined"
      by simp_all
    have "replaceVariables rest vars = rest"
      using "2.IH"(2) [OF Some m [symmetric] later] .
    moreover have "replacement vars (''{{'' @ key @ ''}}'') key = ''{{'' @ key @ ''}}''"
      by (simp add: replacement_def getProperty_def free truthy_def toString_def)
    ultimately have "replaceVariables (c # cs) vars = ''{{'' @ key @ ''}}'' @ rest"
      using Some m by simp
    with matchPlaceholder_text [of "c # cs" key rest] Some m show ?thesis by simp
  qed
qed

subsection \<open>Encryption\<close>

text \<open>Bytes and code units as numbers.\<close>

lemma unat_byte: "k < 256 \<Longrightarrow> unat (of_nat k :: byte) = k"
  by (simp add: unat_of_nat)

lemma byte_bound: "unat (b :: byte) < 256"
  using unsigned_less [of b, where 'a = nat] by simp

lemma unbase64_base64Char: "n < 64 \<Longrightarrow> unbase64 (base64Char n) = Some n"
  by (simp add: unbase64_def base64Char_def Let_def) arith

lemma sextets_group:
  "a < 64 \<Longrightarrow> b < 64 \<Longrightarrow> c < 64 \<Longrightarrow> d < 64 \<Longrightarrow>
   sextets (base64Char a # base64Char b # base64Char c # base64Char d # rest) = a # b # c # d # sextets rest"
  by (simp add: unbase64_base64Char)

lemma unbase64_pad: "unbase64 (CHR ''='') = None"
  by (simp add: unbase64_def)

lemma byte_of_unat: "of_nat (unat a) = (a :: byte)"
  by simp

lemma sextet_bound_a: "x < 256 \<Longrightarrow> x div 4 < (64::nat)" by arith
lemma sextet_bound_b: "y < 256 \<Longrightarrow> x mod 4 * 16 + y div 16 < (64::nat)" by arith
lemma sextet_bound_c: "z < 256 \<Longrightarrow> y mod 16 * 4 + z div 64 < (64::nat)" by arith
lemma sextet_bound_d: "z mod 64 < (64::nat)" by arith
lemma sextet_bound_b': "x mod 4 * 16 < (64::nat)" by arith
lemma sextet_bound_c': "y mod 16 * 4 < (64::nat)" by arith

lemma first_byte: "x div 4 * 4 + (x mod 4 * 16 + y div 16) div 16 = (x::nat)" if "y < 256"
proof -
  have "y div 16 < 16" using that by simp
  then have "(x mod 4 * 16 + y div 16) div 16 = x mod 4" by simp
  then show ?thesis by simp
qed

lemma second_byte:
  "(x mod 4 * 16 + y div 16) mod 16 * 16 + (y mod 16 * 4 + z div 64) div 4 = (y::nat)"
  if "y < 256" "z < 256"
proof -
  have "y div 16 < 16" "z div 64 < 4" using that by simp_all
  then have "(x mod 4 * 16 + y div 16) mod 16 = y div 16" "(y mod 16 * 4 + z div 64) div 4 = y mod 16"
    by simp_all
  then show ?thesis by simp
qed

lemma third_byte: "(y mod 16 * 4 + z div 64) mod 4 * 64 + z mod 64 = (z::nat)" if "z < 256"
proof -
  have "z div 64 < 4" using that by simp
  then have "(y mod 16 * 4 + z div 64) mod 4 = z div 64" by simp
  then show ?thesis by simp
qed

lemma first_byte': "x div 4 * 4 + x mod 4 * 16 div 16 = (x::nat)"
  by simp

lemma second_byte': "(x mod 4 * 16 + y div 16) mod 16 * 16 + y mod 16 * 4 div 4 = (y::nat)" if "y < 256"
proof -
  have "y div 16 < 16" using that by simp
  then have "(x mod 4 * 16 + y div 16) mod 16 = y div 16" by simp
  then show ?thesis by simp
qed

lemma fromSextets_three:
  "fromSextets (unat a div 4 # (unat a mod 4 * 16 + unat b div 16)
      # (unat b mod 16 * 4 + unat c div 64) # unat c mod 64 # rest) = a # b # c # fromSextets rest"
  by (simp only: fromSextets.simps first_byte [OF byte_bound] second_byte [OF byte_bound byte_bound]
      third_byte [OF byte_bound] byte_of_unat append.simps)

lemma fromSextets_two:
  "fromSextets [unat a div 4, unat a mod 4 * 16 + unat b div 16, unat b mod 16 * 4] = [a, b]"
  by (simp only: fromSextets.simps first_byte [OF byte_bound] second_byte' [OF byte_bound]
      byte_of_unat)

lemma fromSextets_one: "fromSextets [unat a div 4, unat a mod 4 * 16] = [a]"
  by (simp only: fromSextets.simps first_byte' byte_of_unat)

lemma sextets_three:
  "sextets (base64Encode (a # b # c # rest)) =
     unat a div 4 # (unat a mod 4 * 16 + unat b div 16) # (unat b mod 16 * 4 + unat c div 64)
     # unat c mod 64 # sextets (base64Encode rest)"
  by (simp only: base64Encode.simps append.simps sextets.simps option.case
      unbase64_base64Char [OF sextet_bound_a [OF byte_bound]]
      unbase64_base64Char [OF sextet_bound_b [OF byte_bound]]
      unbase64_base64Char [OF sextet_bound_c [OF byte_bound]]
      unbase64_base64Char [OF sextet_bound_d])

lemma sextets_two:
  "sextets (base64Encode [a, b]) = [unat a div 4, unat a mod 4 * 16 + unat b div 16, unat b mod 16 * 4]"
  by (simp only: base64Encode.simps append.simps sextets.simps option.case unbase64_pad if_True
      unbase64_base64Char [OF sextet_bound_a [OF byte_bound]]
      unbase64_base64Char [OF sextet_bound_b [OF byte_bound]]
      unbase64_base64Char [OF sextet_bound_c'] refl)

lemma sextets_one: "sextets (base64Encode [a]) = [unat a div 4, unat a mod 4 * 16]"
  by (simp only: base64Encode.simps append.simps sextets.simps option.case unbase64_pad if_True
      unbase64_base64Char [OF sextet_bound_a [OF byte_bound]]
      unbase64_base64Char [OF sextet_bound_b'] refl)

lemma base64_roundtrip: "base64Decode (base64Encode bs) = bs"
proof (induction bs rule: base64Encode.induct)
  case 1
  show ?case by (simp add: base64Decode_def)
next
  case (2 a)
  show ?case by (simp only: base64Decode_def sextets_one fromSextets_one)
next
  case (3 a b)
  show ?case by (simp only: base64Decode_def sextets_two fromSextets_two)
next
  case (4 a b c rest)
  then show ?case by (simp only: base64Decode_def sextets_three fromSextets_three)
qed


lemma unit_bound: "unat (u :: 16 word) < 65536"
  using unsigned_less [of u, where 'a = nat] by simp

lemma unit_of_unat: "of_nat (unat u) = (u :: 16 word)"
  by simp

lemma decode_one:
  "n < 0x80 \<Longrightarrow> utf8Decode (of_nat n # rest) = of_nat n # utf8Decode rest"
  by (simp add: unat_byte)

lemma decode_two:
  assumes "0xC2 \<le> l" "l \<le> 0xDF" "0x80 \<le> c" "c \<le> 0xBF"
  shows "utf8Decode (of_nat l # of_nat c # rest) = codeUnits ((l - 0xC0) * 64 + c mod 64) @ utf8Decode rest"
proof -
  have "unat (of_nat l :: byte) = l" "unat (of_nat c :: byte) = c"
    using assms by (simp_all add: unat_byte)
  then show ?thesis
    using assms by (simp add: Let_def isContinuation_def inRange_def continuationBits_def)
qed

lemma decode_three:
  assumes "0xE0 \<le> l" "l \<le> 0xEF" "lowerBoundary l \<le> c" "c \<le> upperBoundary l"
    and "0x80 \<le> d" "d \<le> 0xBF"
  shows "utf8Decode (of_nat l # of_nat c # of_nat d # rest) =
           codeUnits ((l - 0xE0) * 4096 + c mod 64 * 64 + d mod 64) @ utf8Decode rest"
proof -
  have "c \<le> 0xBF" using assms(4) by (simp add: upperBoundary_def split: if_splits)
  then have "unat (of_nat l :: byte) = l" "unat (of_nat c :: byte) = c" "unat (of_nat d :: byte) = d"
    using assms by (simp_all add: unat_byte)
  then show ?thesis
    using assms by (simp add: Let_def isContinuation_def inRange_def continuationBits_def)
qed

lemma decode_four:
  assumes "0xF0 \<le> l" "l \<le> 0xF4" "lowerBoundary l \<le> c" "c \<le> upperBoundary l"
    and "0x80 \<le> d" "d \<le> 0xBF" "0x80 \<le> e" "e \<le> 0xBF"
  shows "utf8Decode (of_nat l # of_nat c # of_nat d # of_nat e # rest) =
           codeUnits ((l - 0xF0) * 262144 + c mod 64 * 4096 + d mod 64 * 64 + e mod 64) @ utf8Decode rest"
proof -
  have "c \<le> 0xBF" using assms(4) by (simp add: upperBoundary_def split: if_splits)
  then have "unat (of_nat l :: byte) = l" "unat (of_nat c :: byte) = c" "unat (of_nat d :: byte) = d"
      "unat (of_nat e :: byte) = e"
    using assms by (simp_all add: unat_byte)
  then show ?thesis
    using assms by (simp add: Let_def isContinuation_def inRange_def continuationBits_def)
qed


lemma cont_payload: "y < 64 \<Longrightarrow> (128 + y) mod 64 = (y :: nat)"
proof -
  assume "y < 64"
  have "(128 + y) mod 64 = (2 * 64 + y) mod 64" by simp
  also have "\<dots> = y mod 64" by (simp only: mod_mult_self3)
  finally show ?thesis using \<open>y < 64\<close> by simp
qed

lemma split4096: "cp div 4096 * 4096 + cp div 64 mod 64 * 64 + cp mod 64 = (cp :: nat)"
proof -
  have "cp div 4096 = cp div 64 div 64" by (simp add: div_mult2_eq)
  then have "cp div 4096 * 64 + cp div 64 mod 64 = cp div 64" by simp
  then have "(cp div 4096 * 64 + cp div 64 mod 64) * 64 + cp mod 64 = cp" by simp
  then show ?thesis by (simp add: algebra_simps)
qed

lemma split262144:
  "cp div 262144 * 262144 + cp div 4096 mod 64 * 4096 + cp div 64 mod 64 * 64 + cp mod 64 = (cp :: nat)"
proof -
  have "cp div 262144 = cp div 4096 div 64" by (simp add: div_mult2_eq)
  then have A: "cp div 262144 * 64 + cp div 4096 mod 64 = cp div 4096" by simp
  have "cp div 262144 * 262144 + cp div 4096 mod 64 * 4096
          = (cp div 262144 * 64 + cp div 4096 mod 64) * 4096"
    by (simp add: algebra_simps)
  also have "\<dots> = cp div 4096 * 4096" by (simp only: A)
  finally have B: "cp div 262144 * 262144 + cp div 4096 mod 64 * 4096 = cp div 4096 * 4096" .
  show ?thesis by (simp only: B split4096)
qed

lemma three_parts:
  fixes cp :: nat
  obtains a b c where "cp div 4096 = a" "cp div 64 mod 64 = b" "cp mod 64 = c"
    "cp = a * 4096 + b * 64 + c" "b < 64" "c < 64"
proof
  show "cp = cp div 4096 * 4096 + cp div 64 mod 64 * 64 + cp mod 64" by (simp only: split4096)
qed simp_all

lemma four_parts:
  fixes cp :: nat
  obtains a b c d where "cp div 262144 = a" "cp div 4096 mod 64 = b" "cp div 64 mod 64 = c" "cp mod 64 = d"
    "cp = a * 262144 + b * 4096 + c * 64 + d" "b < 64" "c < 64" "d < 64"
proof
  show "cp = cp div 262144 * 262144 + cp div 4096 mod 64 * 4096 + cp div 64 mod 64 * 64 + cp mod 64"
    by (simp only: split262144)
qed simp_all

lemma two_parts:
  fixes cp :: nat
  obtains a b where "cp div 64 = a" "cp mod 64 = b" "cp = a * 64 + b" "b < 64"
proof
  show "cp = cp div 64 * 64 + cp mod 64" by simp
qed simp_all


lemma decode_scalar:
  assumes "cp < 0x110000" "\<not> (0xD800 \<le> cp \<and> cp < 0xE000)"
  shows "utf8Decode (utf8Bytes cp @ rest) = codeUnits cp @ utf8Decode rest"
proof -
  consider "cp < 0x80" | "0x80 \<le> cp" "cp < 0x800" | "0x800 \<le> cp" "cp < 0x10000" | "0x10000 \<le> cp"
    by linarith
  then show ?thesis
  proof cases
    case 1
    then show ?thesis
      using decode_one [of cp rest] by (simp add: utf8Bytes_def codeUnits_def del: utf8Decode.simps(2))
  next
    case 2
    obtain a b where p: "cp div 64 = a" "cp mod 64 = b" and q: "cp = a * 64 + b" "b < 64"
      by (rule two_parts)
    have r: "0xC2 \<le> 0xC0 + a" "0xC0 + a \<le> 0xDF" "0x80 \<le> 0x80 + b" "0x80 + b \<le> 0xBF"
      using 2 q by linarith+
    have "utf8Bytes cp = [of_nat (0xC0 + a), of_nat (0x80 + b)]"
      using 2 by (simp add: utf8Bytes_def p)
    then have "utf8Decode (utf8Bytes cp @ rest) =
        codeUnits ((0xC0 + a - 0xC0) * 64 + (0x80 + b) mod 64) @ utf8Decode rest"
      using decode_two [OF r, of rest] by simp
    also have "(0xC0 + a - 0xC0) * 64 + (0x80 + b) mod 64 = cp"
      using cont_payload [OF q(2)] q(1) by simp
    finally show ?thesis .
  next
    case 3
    obtain a b c where p: "cp div 4096 = a" "cp div 64 mod 64 = b" "cp mod 64 = c"
      and q: "cp = a * 4096 + b * 64 + c" "b < 64" "c < 64"
      by (rule three_parts)
    have r: "0xE0 \<le> 0xE0 + a" "0xE0 + a \<le> 0xEF" using 3 q by linarith+
    have lo: "lowerBoundary (0xE0 + a) \<le> 0x80 + b"
    proof (cases "a = 0")
      case True
      then have "32 \<le> b" using 3 q by linarith
      then show ?thesis using True by (simp add: lowerBoundary_def)
    next
      case False
      then show ?thesis using r by (simp add: lowerBoundary_def)
    qed
    have hi: "0x80 + b \<le> upperBoundary (0xE0 + a)"
    proof (cases "a = 13")
      case True
      then have "b < 32" using 3 q assms(2) by linarith
      then show ?thesis using True by (simp add: upperBoundary_def)
    next
      case False
      then show ?thesis using q(2) r by (simp add: upperBoundary_def)
    qed
    have r2: "0x80 \<le> 0x80 + c" "0x80 + c \<le> 0xBF" using q by linarith+
    have "utf8Bytes cp = [of_nat (0xE0 + a), of_nat (0x80 + b), of_nat (0x80 + c)]"
      using 3 by (simp add: utf8Bytes_def p)
    then have "utf8Decode (utf8Bytes cp @ rest) =
        codeUnits ((0xE0 + a - 0xE0) * 4096 + (0x80 + b) mod 64 * 64 + (0x80 + c) mod 64) @ utf8Decode rest"
      using decode_three [OF r lo hi r2, of rest] by simp
    also have "(0xE0 + a - 0xE0) * 4096 + (0x80 + b) mod 64 * 64 + (0x80 + c) mod 64 = cp"
      using cont_payload [OF q(2)] cont_payload [OF q(3)] q(1) by simp
    finally show ?thesis .
  next
    case 4
    obtain a b c d where p: "cp div 262144 = a" "cp div 4096 mod 64 = b" "cp div 64 mod 64 = c" "cp mod 64 = d"
      and q: "cp = a * 262144 + b * 4096 + c * 64 + d" "b < 64" "c < 64" "d < 64"
      by (rule four_parts)
    have r: "0xF0 \<le> 0xF0 + a" "0xF0 + a \<le> 0xF4" using 4 q assms(1) by linarith+
    have lo: "lowerBoundary (0xF0 + a) \<le> 0x80 + b"
    proof (cases "a = 0")
      case True
      then have "16 \<le> b" using 4 q by linarith
      then show ?thesis using True by (simp add: lowerBoundary_def)
    next
      case False
      then show ?thesis using r by (simp add: lowerBoundary_def)
    qed
    have hi: "0x80 + b \<le> upperBoundary (0xF0 + a)"
    proof (cases "a = 4")
      case True
      then have "b < 16" using 4 q assms(1) by linarith
      then show ?thesis using True by (simp add: upperBoundary_def)
    next
      case False
      then show ?thesis using q(2) r by (simp add: upperBoundary_def)
    qed
    have r2: "0x80 \<le> 0x80 + c" "0x80 + c \<le> 0xBF" "0x80 \<le> 0x80 + d" "0x80 + d \<le> 0xBF"
      using q by linarith+
    have "utf8Bytes cp = [of_nat (0xF0 + a), of_nat (0x80 + b), of_nat (0x80 + c), of_nat (0x80 + d)]"
      using 4 by (simp add: utf8Bytes_def p)
    then have "utf8Decode (utf8Bytes cp @ rest) =
        codeUnits ((0xF0 + a - 0xF0) * 262144 + (0x80 + b) mod 64 * 4096 + (0x80 + c) mod 64 * 64
                   + (0x80 + d) mod 64) @ utf8Decode rest"
      using decode_four [OF r lo hi r2, of rest] by simp
    also have "(0xF0 + a - 0xF0) * 262144 + (0x80 + b) mod 64 * 4096 + (0x80 + c) mod 64 * 64
                   + (0x80 + d) mod 64 = cp"
      using cont_payload [OF q(2)] cont_payload [OF q(3)] cont_payload [OF q(4)] q(1) by simp
    finally show ?thesis .
  qed
qed


lemma codeUnits_unit: "codeUnits (unat u) = [u]"
  using unit_bound [of u] by (simp add: codeUnits_def)

lemma codeUnits_pair:
  assumes "isHighSurrogate u" "isLowSurrogate l"
  shows "codeUnits (0x10000 + (unat u - 0xD800) * 0x400 + (unat l - 0xDC00)) = [u, l]"
proof -
  define h where "h = unat u - 0xD800"
  define k where "k = unat l - 0xDC00"
  have hk: "unat u = 0xD800 + h" "unat l = 0xDC00 + k" "h < 0x400" "k < 0x400"
    using assms unfolding h_def k_def isHighSurrogate_def isLowSurrogate_def by linarith+
  have "(h * 0x400 + k) div 0x400 = h" "(h * 0x400 + k) mod 0x400 = k"
    using hk(4) by simp_all
  then have "codeUnits (0x10000 + h * 0x400 + k) = [of_nat (0xD800 + h), of_nat (0xDC00 + k)]"
    by (simp add: codeUnits_def add.assoc)
  also have "\<dots> = [u, l]"
    by (simp only: hk(1,2) [symmetric] unit_of_unat)
  finally show ?thesis by (simp only: h_def k_def)
qed

lemma pair_scalar:
  assumes "isHighSurrogate u" "isLowSurrogate l"
  shows "0x10000 + (unat u - 0xD800) * 0x400 + (unat l - 0xDC00) < 0x110000"
    and "\<not> (0xD800 \<le> 0x10000 + (unat u - 0xD800) * 0x400 + (unat l - 0xDC00)
            \<and> 0x10000 + (unat u - 0xD800) * 0x400 + (unat l - 0xDC00) < 0xE000)"
  using assms unfolding isHighSurrogate_def isLowSurrogate_def by linarith+

lemma utf8_roundtrip: "wellFormed s \<Longrightarrow> utf8Decode (utf8Encode s) = s"
proof (induction s rule: utf8Encode.induct)
  case 1
  show ?case by simp
next
  case (2 u)
  then have "\<not> (0xD800 \<le> unat u \<and> unat u < 0xE000)"
    by (auto simp add: isHighSurrogate_def isLowSurrogate_def)
  from decode_scalar [OF _ this, of "[]"] unit_bound [of u] 2 show ?case
    by (simp add: codeUnits_unit del: utf8Decode.simps(2))
next
  case (3 u l us)
  show ?case
  proof (cases "isHighSurrogate u")
    case True
    with "3.prems" have low: "isLowSurrogate l" and wf: "wellFormed us" by simp_all
    from "3.IH"(1) [OF conjI [OF True low] wf]
      decode_scalar [OF pair_scalar [OF True low], of "utf8Encode us"]
    show ?thesis using True low by (simp add: codeUnits_pair del: utf8Decode.simps(2))
  next
    case False
    with "3.prems" have nl: "\<not> isLowSurrogate u" and wf: "wellFormed (l # us)" by simp_all
    have ns: "\<not> (0xD800 \<le> unat u \<and> unat u < 0xE000)"
      using False nl by (auto simp add: isHighSurrogate_def isLowSurrogate_def)
    have "utf8Encode (u # l # us) = utf8Bytes (unat u) @ utf8Encode (l # us)"
      using False nl by simp
    moreover have "utf8Decode (utf8Encode (l # us)) = l # us"
      using "3.IH"(3) False nl wf by simp
    ultimately show ?thesis
      using decode_scalar [OF _ ns, of "utf8Encode (l # us)"] unit_bound [of u]
      by (simp add: codeUnits_unit del: utf8Decode.simps(2) utf8Encode.simps)
  qed
qed
lemma layout:
  assumes "length salt = 64" "length iv = 16" "length tag = 16"
  shows "slice 0 SALT_LENGTH (salt @ iv @ tag @ encrypted) = salt"
    and "slice SALT_LENGTH TAG_POSITION (salt @ iv @ tag @ encrypted) = iv"
    and "slice TAG_POSITION ENCRYPTED_POSITION (salt @ iv @ tag @ encrypted) = tag"
    and "drop ENCRYPTED_POSITION (salt @ iv @ tag @ encrypted) = encrypted"
  using assms
  by (simp_all add: slice_def SALT_LENGTH_def IV_LENGTH_def TAG_LENGTH_def TAG_POSITION_def
      ENCRYPTED_POSITION_def)

lemma decrypt_encrypt_transcodes:
  assumes "nodeCrypto lib"
  shows "\<exists>encryptedData. fst (encrypt lib plaintext secretKey ent) = Inr encryptedData
           \<and> decrypt lib encryptedData secretKey = Inr (utf8Decode (utf8Encode plaintext))"
proof -
  define iv where "iv = map ent [0..<16]"
  define salt where "salt = map (\<lambda>i. ent (i + 16)) [0..<64]"
  define key where "key = pbkdf2Sync lib secretKey salt 100000 32 ''sha512''"
  have len: "length salt = 64" "length iv = 16" "length key = 32"
    using assms by (simp_all add: salt_def iv_def key_def nodeCrypto_def)
  from assms len obtain encrypted tag where
    c: "cipher lib key iv (utf8Encode plaintext) = Inr (encrypted, tag)" "length tag = 16"
      "decipher lib key iv tag encrypted = Inr (utf8Encode plaintext)"
    unfolding nodeCrypto_def by blast
  have e: "fst (encrypt lib plaintext secretKey ent) = Inr (base64Encode (salt @ iv @ tag @ encrypted))"
    using c(1)
    by (simp add: encrypt_def randomBytes_def IV_LENGTH_def SALT_LENGTH_def Let_def
        iv_def [symmetric] salt_def [symmetric] key_def [symmetric])
  have "decrypt lib (base64Encode (salt @ iv @ tag @ encrypted)) secretKey =
      (case decipher lib key iv tag encrypted of
         Inl e \<Rightarrow> Inl e
       | Inr decrypted \<Rightarrow> Inr (utf8Decode decrypted))"
    by (simp only: decrypt_def Let_def base64_roundtrip layout [OF len(1,2) c(2)] key_def)
  then have "decrypt lib (base64Encode (salt @ iv @ tag @ encrypted)) secretKey =
      Inr (utf8Decode (utf8Encode plaintext))"
    by (simp add: c(3))
  with e show ?thesis by blast
qed

lemma toyCrypto_ok: "nodeCrypto toyCrypto"
  by (simp add: nodeCrypto_def toyCrypto_def comp_def)

lemma lone_surrogate_transcoded: "utf8Decode (utf8Encode [0xD800]) = [0xFFFD]"
  by (simp add: isHighSurrogate_def replacementBytes_def lowerBoundary_def upperBoundary_def
      inRange_def isContinuation_def continuationBits_def codeUnits_def)

text \<open>With every crypto module that keeps its contract, the unpaired surrogate U+D800
  comes back as U+FFFD.\<close>

lemma lone_surrogate_any_crypto:
  assumes "nodeCrypto lib"
  shows "\<exists>encryptedData. fst (encrypt lib [0xD800] secretKey ent) = Inr encryptedData
           \<and> decrypt lib encryptedData secretKey = Inr [0xFFFD]"
  using decrypt_encrypt_transcodes [OF assms, of "[0xD800]" secretKey ent]
  by (simp add: lone_surrogate_transcoded del: utf8Encode.simps utf8Decode.simps)

text \<open>
  C10, as the claim states it, is false: a plaintext that holds an unpaired surrogate
  does not come back. The code unit U+D800 is encrypted as the three bytes of U+FFFD,
  and decryption returns U+FFFD.
\<close>

theorem lone_surrogate_not_restored:
  "utf8Encode [0xD800] = [0xEF, 0xBF, 0xBD]
   \<and> decrypt toyCrypto (projr (fst (encrypt toyCrypto [0xD800] (js ''secret'') counting)))
        (js ''secret'') = Inr [0xFFFD]
   \<and> decrypt toyCrypto (projr (fst (encrypt toyCrypto [0xD800] (js ''secret'') counting)))
        (js ''secret'') \<noteq> Inr [0xD800]"
proof -
  from decrypt_encrypt_transcodes [OF toyCrypto_ok, of "[0xD800]" "js ''secret''" counting]
  obtain encryptedData where
    "fst (encrypt toyCrypto [0xD800] (js ''secret'') counting) = Inr encryptedData"
    "decrypt toyCrypto encryptedData (js ''secret'') = Inr (utf8Decode (utf8Encode [0xD800]))"
    by blast
  then have "decrypt toyCrypto (projr (fst (encrypt toyCrypto [0xD800] (js ''secret'') counting)))
        (js ''secret'') = Inr [0xFFFD]"
    by (simp add: lone_surrogate_transcoded del: utf8Encode.simps utf8Decode.simps)
  moreover have "utf8Encode [0xD800] = [0xEF, 0xBF, 0xBD]"
    by (simp add: isHighSurrogate_def replacementBytes_def)
  ultimately show ?thesis by simp
qed

text \<open>
  C10, amended: for every plaintext string that is well formed (no unpaired surrogate),
  every secret key string and every salt and IV the entropy source yields,
  \<^verbatim>\<open>encrypt\<close> returns a payload and \<^verbatim>\<open>decrypt\<close> of that payload with the same key
  returns the plaintext, provided the crypto module keeps its contract \<open>nodeCrypto\<close>:
  the layout salt, IV, tag, ciphertext that \<^verbatim>\<open>encrypt\<close> packs is the layout \<^verbatim>\<open>decrypt\<close>
  slices.
\<close>

theorem decrypt_encrypt_wellFormed:
  assumes "nodeCrypto lib" and "wellFormed plaintext"
  shows "\<exists>encryptedData. fst (encrypt lib plaintext secretKey ent) = Inr encryptedData
           \<and> decrypt lib encryptedData secretKey = Inr plaintext"
  using decrypt_encrypt_transcodes [OF assms(1), of plaintext secretKey ent]
    utf8_roundtrip [OF assms(2)]
  by simp

lemma wellFormed_token: "wellFormed (js ''token-123'')"
  by (simp add: js_def isHighSurrogate_def isLowSurrogate_def)

theorem decrypt_encrypt_wellFormed_witness:
  "nodeCrypto toyCrypto \<and> wellFormed (js ''token-123'')
   \<and> (\<exists>encryptedData.
         fst (encrypt toyCrypto (js ''token-123'') (js ''secret'') counting) = Inr encryptedData
         \<and> decrypt toyCrypto encryptedData (js ''secret'') = Inr (js ''token-123''))"
  using decrypt_encrypt_wellFormed [OF toyCrypto_ok wellFormed_token, of "js ''secret''" counting]
    toyCrypto_ok wellFormed_token
  by simp

end
